theory Spec2Isabelle
  imports Complex_Main "HOL-Library.Multiset" "HOL-Library.Sublist"
    "HOL-Library.Product_Lexorder"
begin

section \<open>Search, embedding similarity and grounded generation: the model of backend/app.py\<close>

text \<open>
  The program is a single Python module. It searches the web for a question, scores every
  search result by the cosine similarity of its embedding to the embedding of the question,
  keeps the results at or above a threshold, ranks them, and asks a generation model with
  the ranked results as context.

  Conventions of the model:
  \<^item> Python \<open>str\<close> is \<open>string\<close>, holding the UTF-8 bytes of the text; the Korean literals of
    the source are written out as their bytes.
  \<^item> A Python \<open>float\<close> (a float64) is a value of \<open>np_float\<close>: a finite one is the real
    number it denotes, and there are the two infinities and NaN. The two zeros of float64
    are one value. Comparison of floats is the exact one of these values, false whenever
    NaN is involved.
  \<^item> The arithmetic the program takes from numpy (\<open>np.dot\<close>, \<open>np.linalg.norm\<close>, the product
    and the quotient of two float64 scalars) is a parameter of the model, the record
    \<open>arith\<close>. Two instances are defined: \<open>float64_arith\<close>, where every operation rounds
    its exact result to the nearest float64 as IEEE 754 prescribes, and \<open>exact_arith\<close>,
    where no operation rounds.
  \<^item> A search result dictionary is a record; the key \<open>similarity_score\<close>, which the
    search never sets and the filter adds, is an optional field.
  \<^item> Exceptions are values of type \<open>error\<close>; a function that can raise returns
    \<open>error + 'a\<close>.
  \<^item> The three external services (search, embedding, generation) are parameters, collected
    in the record \<open>env\<close> together with the arithmetic and the two search credentials
    read from the process environment. Each service answers as a function of what it is
    asked. Every outbound call is appended to the list of calls that the effectful
    functions pass along.
\<close>

subsection \<open>Errors and floats\<close>

datatype error =
    KeyError string
  | ValueError nat nat
  | ProviderError string

datatype np_float = Finite real | PosInf | NegInf | NaN

text \<open>
  The order of floats: minus infinity, the finite values in the order of the reals, plus
  infinity. \<open>float_ge a b\<close> is Python's \<open>a >= b\<close>. The rank of NaN serves only to keep
  it apart from the other values in \<open>descending_key\<close> below.
\<close>

definition float_rank :: "np_float \<Rightarrow> int" where
  "float_rank a = (case a of NegInf \<Rightarrow> - 1 | Finite x \<Rightarrow> 0 | PosInf \<Rightarrow> 1 | NaN \<Rightarrow> 2)"

definition float_val :: "np_float \<Rightarrow> real" where
  "float_val a = (case a of Finite x \<Rightarrow> x | _ \<Rightarrow> 0)"

definition float_ge :: "np_float \<Rightarrow> np_float \<Rightarrow> bool" where
  "float_ge a b =
     (a \<noteq> NaN \<and> b \<noteq> NaN
      \<and> (float_rank b < float_rank a
           \<or> float_rank b = float_rank a \<and> float_val b \<le> float_val a))"

subsection \<open>Decimal output\<close>

definition digit :: "nat \<Rightarrow> char" where
  "digit n = ''0123456789'' ! (n mod 10)"

fun str_nat :: "nat \<Rightarrow> string" where
  "str_nat n = (if n < 10 then [digit n] else str_nat (n div 10) @ [digit n])"

declare str_nat.simps [simp del]

text \<open>
  \<open>format_2f\<close> is the format specification \<open>:.2f\<close>. A finite value is rounded to a
  multiple of one hundredth, a tie going to the even neighbour, and printed with its sign,
  its integer part and exactly two decimals; the other values print as \<open>inf\<close>, \<open>-inf\<close>
  and \<open>nan\<close>. (Python prints the negative zero, which the model does not tell from
  zero, as \<open>-0.00\<close>.)
\<close>

definition round_half_even :: "real \<Rightarrow> int" where
  "round_half_even x =
     (let f = \<lfloor>x\<rfloor>; d = x - of_int f
      in if d < 1 / 2 then f
         else if 1 / 2 < d then f + 1
         else if even f then f else f + 1)"

definition format_2f :: "np_float \<Rightarrow> string" where
  "format_2f a =
     (case a of
        Finite x \<Rightarrow>
          (let n = nat (round_half_even (\<bar>x\<bar> * 100))
           in (if x < 0 then ''-'' else '''')
              @ str_nat (n div 100) @ ''.'' @ [digit (n div 10), digit n])
      | PosInf \<Rightarrow> ''inf''
      | NegInf \<Rightarrow> ''-inf''
      | NaN \<Rightarrow> ''nan'')"

subsection \<open>Float arithmetic\<close>

text \<open>
  What the program uses of numpy. \<open>f_dot\<close> is \<open>np.dot\<close> on two one-dimensional arrays of
  the same length, \<open>f_norm\<close> is \<open>np.linalg.norm\<close> on a one-dimensional array, \<open>f_mul\<close>
  and \<open>f_div\<close> are \<open>*\<close> and \<open>/\<close> on float64 scalars (which raise nothing: a division by
  zero gives an infinity or NaN). The entries of an array are finite floats.
\<close>

record arith =
  f_dot :: "real list \<Rightarrow> real list \<Rightarrow> np_float"
  f_norm :: "real list \<Rightarrow> np_float"
  f_mul :: "np_float \<Rightarrow> np_float \<Rightarrow> np_float"
  f_div :: "np_float \<Rightarrow> np_float \<Rightarrow> np_float"

text \<open>
  The operations of IEEE 754, over a rounding function \<open>rnd\<close> that takes the exact result
  of an operation on finite values to the float returned. The sign of a zero is not
  modelled; the only divisor of the program is a product of two norms, which is never a
  negative zero, so a finite non-zero value divided by zero is the infinity of its sign.
\<close>

definition float_sgn :: "np_float \<Rightarrow> int" where
  "float_sgn a =
     (case a of
        Finite x \<Rightarrow> (if x < 0 then - 1 else if x = 0 then 0 else 1)
      | PosInf \<Rightarrow> 1
      | NegInf \<Rightarrow> - 1
      | NaN \<Rightarrow> 0)"

definition signed_inf :: "int \<Rightarrow> np_float" where
  "signed_inf s = (if s < 0 then NegInf else PosInf)"

definition ieee_add :: "(real \<Rightarrow> np_float) \<Rightarrow> np_float \<Rightarrow> np_float \<Rightarrow> np_float" where
  "ieee_add rnd a b =
     (case (a, b) of
        (Finite x, Finite y) \<Rightarrow> rnd (x + y)
      | _ \<Rightarrow>
          if a = NaN \<or> b = NaN then NaN
          else if a = PosInf \<and> b = NegInf \<or> a = NegInf \<and> b = PosInf then NaN
          else if a = PosInf \<or> b = PosInf then PosInf
          else NegInf)"

definition ieee_mul :: "(real \<Rightarrow> np_float) \<Rightarrow> np_float \<Rightarrow> np_float \<Rightarrow> np_float" where
  "ieee_mul rnd a b =
     (case (a, b) of
        (Finite x, Finite y) \<Rightarrow> rnd (x * y)
      | _ \<Rightarrow>
          if a = NaN \<or> b = NaN then NaN
          else if float_sgn a * float_sgn b = 0 then NaN
          else signed_inf (float_sgn a * float_sgn b))"

definition ieee_div :: "(real \<Rightarrow> np_float) \<Rightarrow> np_float \<Rightarrow> np_float \<Rightarrow> np_float" where
  "ieee_div rnd a b =
     (case (a, b) of
        (Finite x, Finite y) \<Rightarrow>
          if y = 0 then (if x = 0 then NaN else signed_inf (float_sgn a)) else rnd (x / y)
      | (Finite x, _) \<Rightarrow> if b = NaN then NaN else Finite 0
      | (_, Finite y) \<Rightarrow>
          if a = NaN then NaN else signed_inf (if y < 0 then - float_sgn a else float_sgn a)
      | _ \<Rightarrow> NaN)"

definition ieee_sqrt :: "(real \<Rightarrow> np_float) \<Rightarrow> np_float \<Rightarrow> np_float" where
  "ieee_sqrt rnd a =
     (case a of
        Finite x \<Rightarrow> if x < 0 then NaN else rnd (sqrt x)
      | PosInf \<Rightarrow> PosInf
      | _ \<Rightarrow> NaN)"

text \<open>
  The dot product is the sum of the rounded products, and the norm is the square root of
  the dot product of the array with itself, as numpy computes it. numpy leaves the order
  of the sum to the linear algebra library it is built on; here the sum runs from left to
  right.
\<close>

definition ieee_dot :: "(real \<Rightarrow> np_float) \<Rightarrow> real list \<Rightarrow> real list \<Rightarrow> np_float" where
  "ieee_dot rnd vec1 vec2 =
     foldl (\<lambda>acc (x, y). ieee_add rnd acc (ieee_mul rnd (Finite x) (Finite y)))
       (Finite 0) (zip vec1 vec2)"

definition ieee_norm :: "(real \<Rightarrow> np_float) \<Rightarrow> real list \<Rightarrow> np_float" where
  "ieee_norm rnd vec = ieee_sqrt rnd (ieee_dot rnd vec vec)"

definition ieee :: "(real \<Rightarrow> np_float) \<Rightarrow> arith" where
  "ieee rnd =
     \<lparr>f_dot = ieee_dot rnd, f_norm = ieee_norm rnd, f_mul = ieee_mul rnd, f_div = ieee_div rnd\<rparr>"

text \<open>
  Rounding to float64, to the nearest value and on a tie to the one with an even
  significand: a significand of 53 bits, exponents from -1022 (below it the subnormal
  numbers, spaced \<open>2 powr - 1074\<close> apart) to 1023, and an infinity when the rounded
  magnitude reaches \<open>2 ^ 1024\<close>.
\<close>

definition float64_round :: "real \<Rightarrow> np_float" where
  "float64_round x =
     (if x = 0 then Finite 0
      else
        let e = max \<lfloor>log 2 \<bar>x\<bar>\<rfloor> (- 1022);
            q = 2 powr of_int (e - 52);
            y = of_int (round_half_even (x / q)) * q
        in if 2 ^ 1024 \<le> \<bar>y\<bar> then signed_inf (if x < 0 then - 1 else 1) else Finite y)"

definition float64_arith :: arith where
  "float64_arith = ieee float64_round"

definition exact_arith :: arith where
  "exact_arith = ieee Finite"

text \<open>The literal \<open>0.3\<close> of the source is the float64 nearest to three tenths.\<close>

definition float64_0_3 :: real where
  "float64_0_3 = 5404319552844595 / 18014398509481984"

subsection \<open>cosine\_similarity\<close>

text \<open>\<open>np.dot\<close> raises a ValueError on one-dimensional arrays of different lengths.\<close>

definition np_dot :: "arith \<Rightarrow> real list \<Rightarrow> real list \<Rightarrow> error + np_float" where
  "np_dot F vec1 vec2 =
     (if length vec1 = length vec2
      then Inr (f_dot F vec1 vec2)
      else Inl (ValueError (length vec1) (length vec2)))"

definition cosine_similarity :: "arith \<Rightarrow> real list \<Rightarrow> real list \<Rightarrow> error + np_float" where
  "cosine_similarity F vec1 vec2 =
     (case np_dot F vec1 vec2 of
        Inl e \<Rightarrow> Inl e
      | Inr d \<Rightarrow> Inr (f_div F d (f_mul F (f_norm F vec1) (f_norm F vec2))))"

subsection \<open>Data\<close>

text \<open>
  A search result as \<open>google_search\<close> builds it has the keys title, link and snippet;
  \<open>filter_results_by_similarity\<close> adds the key \<open>similarity_score\<close>.
\<close>

record search_result =
  title :: string
  link :: string
  snippet :: string
  similarity_score :: "np_float option"

text \<open>A JSON object whose values are strings, with Python's \<open>dict.get(key, default)\<close>.\<close>

type_synonym json_object = "string \<rightharpoonup> string"

definition dict_get :: "json_object \<Rightarrow> string \<Rightarrow> string \<Rightarrow> string" where
  "dict_get d k dflt = (case d k of None \<Rightarrow> dflt | Some v \<Rightarrow> v)"

subsection \<open>The environment: credentials and external services\<close>

text \<open>
  \<open>numpy\<close> is the float arithmetic. \<open>cse_list_execute q key cx num\<close> is the Custom Search request: it raises, or returns the
  response, of which the program reads only the key \<open>items\<close> (\<open>None\<close> when the key is
  absent). \<open>embed_content text\<close> is the embedding request, \<open>None\<close> when it raises (the
  program catches every exception of it). \<open>generate_content prompt\<close> is the generation
  request: it raises, or returns the text of the response.
\<close>

record env =
  numpy :: arith
  GOOGLE_SEARCH_API_KEY :: string
  GOOGLE_SEARCH_ENGINE_ID :: string
  cse_list_execute :: "string \<Rightarrow> string \<Rightarrow> string \<Rightarrow> nat \<Rightarrow> error + json_object list option"
  embed_content :: "string \<Rightarrow> real list option"
  generate_content :: "string \<Rightarrow> error + string"

datatype call =
    SearchCall string string string nat
  | EmbedCall string
  | GenerateCall string

subsection \<open>The string literals of the source\<close>

text \<open>
  In English: "The following are related search results:", "Source", "Content",
  "Relevance", "Based on the search results above, please answer the following question:",
  "Question", "When answering, please cite the related sources in the format [1], [2].",
  "A question is required", "Google Search API credentials are required. See the README.",
  "(Test without the Google Search API) To answer the question, a Google Custom Search
  API key and search engine ID are required."
\<close>

definition context_header :: string where
  "context_header =
     [CHR 0xEB, CHR 0x8B, CHR 0xA4, CHR 0xEC, CHR 0x9D, CHR 0x8C, CHR 0xEC, CHR 0x9D, CHR 0x80]
     @ '' ''
     @ [CHR 0xEA, CHR 0xB4, CHR 0x80, CHR 0xEB, CHR 0xA0, CHR 0xA8]
     @ '' ''
     @ [CHR 0xEA, CHR 0xB2, CHR 0x80, CHR 0xEC, CHR 0x83, CHR 0x89]
     @ '' ''
     @ [CHR 0xEA, CHR 0xB2, CHR 0xB0, CHR 0xEA, CHR 0xB3, CHR 0xBC, CHR 0xEC, CHR 0x9E, CHR 0x85, CHR 0xEB, CHR 0x8B, CHR 0x88, CHR 0xEB, CHR 0x8B, CHR 0xA4]
     @ '':''
     @ ''\<newline>\<newline>''"

definition source_label :: string where
  "source_label =
     ''   ''
     @ [CHR 0xEC, CHR 0xB6, CHR 0x9C, CHR 0xEC, CHR 0xB2, CHR 0x98]
     @ '': ''"

definition content_label :: string where
  "content_label =
     ''   ''
     @ [CHR 0xEB, CHR 0x82, CHR 0xB4, CHR 0xEC, CHR 0x9A, CHR 0xA9]
     @ '': ''"

definition relevance_label :: string where
  "relevance_label =
     ''   ''
     @ [CHR 0xEA, CHR 0xB4, CHR 0x80, CHR 0xEB, CHR 0xA0, CHR 0xA8, CHR 0xEB, CHR 0x8F, CHR 0x84]
     @ '': ''"

definition answer_request :: string where
  "answer_request =
     [CHR 0xEC, CHR 0x9C, CHR 0x84, CHR 0xEC, CHR 0x9D, CHR 0x98]
     @ '' ''
     @ [CHR 0xEA, CHR 0xB2, CHR 0x80, CHR 0xEC, CHR 0x83, CHR 0x89]
     @ '' ''
     @ [CHR 0xEA, CHR 0xB2, CHR 0xB0, CHR 0xEA, CHR 0xB3, CHR 0xBC, CHR 0xEB, CHR 0xA5, CHR 0xBC]
     @ '' ''
     @ [CHR 0xEB, CHR 0xB0, CHR 0x94, CHR 0xED, CHR 0x83, CHR 0x95, CHR 0xEC, CHR 0x9C, CHR 0xBC, CHR 0xEB, CHR 0xA1, CHR 0x9C]
     @ '' ''
     @ [CHR 0xEB, CHR 0x8B, CHR 0xA4, CHR 0xEC, CHR 0x9D, CHR 0x8C]
     @ '' ''
     @ [CHR 0xEC, CHR 0xA7, CHR 0x88, CHR 0xEB, CHR 0xAC, CHR 0xB8, CHR 0xEC, CHR 0x97, CHR 0x90]
     @ '' ''
     @ [CHR 0xEB, CHR 0x8B, CHR 0xB5, CHR 0xEB, CHR 0xB3, CHR 0x80, CHR 0xED, CHR 0x95, CHR 0xB4, CHR 0xEC, CHR 0xA3, CHR 0xBC, CHR 0xEC, CHR 0x84, CHR 0xB8, CHR 0xEC, CHR 0x9A, CHR 0x94]
     @ '':''"

definition question_label :: string where
  "question_label =
     [CHR 0xEC, CHR 0xA7, CHR 0x88, CHR 0xEB, CHR 0xAC, CHR 0xB8]
     @ '': ''"

definition citation_instruction :: string where
  "citation_instruction =
     [CHR 0xEB, CHR 0x8B, CHR 0xB5, CHR 0xEB, CHR 0xB3, CHR 0x80]
     @ '' ''
     @ [CHR 0xEC, CHR 0x8B, CHR 0x9C]
     @ '' ''
     @ [CHR 0xEA, CHR 0xB4, CHR 0x80, CHR 0xEB, CHR 0xA0, CHR 0xA8]
     @ '' ''
     @ [CHR 0xEC, CHR 0xB6, CHR 0x9C, CHR 0xEC, CHR 0xB2, CHR 0x98, CHR 0xEB, CHR 0xA5, CHR 0xBC]
     @ '' [1], [2] ''
     @ [CHR 0xED, CHR 0x98, CHR 0x95, CHR 0xEC, CHR 0x8B, CHR 0x9D, CHR 0xEC, CHR 0x9C, CHR 0xBC, CHR 0xEB, CHR 0xA1, CHR 0x9C]
     @ '' ''
     @ [CHR 0xEC, CHR 0x9D, CHR 0xB8, CHR 0xEC, CHR 0x9A, CHR 0xA9, CHR 0xED, CHR 0x95, CHR 0xB4, CHR 0xEC, CHR 0xA3, CHR 0xBC, CHR 0xEC, CHR 0x84, CHR 0xB8, CHR 0xEC, CHR 0x9A, CHR 0x94]
     @ ''.''"

definition msg_question_required :: string where
  "msg_question_required =
     [CHR 0xEC, CHR 0xA7, CHR 0x88, CHR 0xEB, CHR 0xAC, CHR 0xB8, CHR 0xEC, CHR 0x9D, CHR 0xB4]
     @ '' ''
     @ [CHR 0xED, CHR 0x95, CHR 0x84, CHR 0xEC, CHR 0x9A, CHR 0x94, CHR 0xED, CHR 0x95, CHR 0xA9, CHR 0xEB, CHR 0x8B, CHR 0x88, CHR 0xEB, CHR 0x8B, CHR 0xA4]"

definition msg_credentials_required :: string where
  "msg_credentials_required =
     ''Google Search API ''
     @ [CHR 0xEC, CHR 0x9E, CHR 0x90, CHR 0xEA, CHR 0xB2, CHR 0xA9, CHR 0xEC, CHR 0xA6, CHR 0x9D, CHR 0xEB, CHR 0xAA, CHR 0x85, CHR 0xEC, CHR 0x9D, CHR 0xB4]
     @ '' ''
     @ [CHR 0xED, CHR 0x95, CHR 0x84, CHR 0xEC, CHR 0x9A, CHR 0x94, CHR 0xED, CHR 0x95, CHR 0xA9, CHR 0xEB, CHR 0x8B, CHR 0x88, CHR 0xEB, CHR 0x8B, CHR 0xA4]
     @ ''. README''
     @ [CHR 0xEB, CHR 0xA5, CHR 0xBC]
     @ '' ''
     @ [CHR 0xEC, CHR 0xB0, CHR 0xB8, CHR 0xEA, CHR 0xB3, CHR 0xA0, CHR 0xED, CHR 0x95, CHR 0x98, CHR 0xEC, CHR 0x84, CHR 0xB8, CHR 0xEC, CHR 0x9A, CHR 0x94]
     @ ''.''"

definition msg_credentials_answer :: string where
  "msg_credentials_answer =
     ''(Google Search API ''
     @ [CHR 0xEC, CHR 0x97, CHR 0x86, CHR 0xEC, CHR 0x9D, CHR 0xB4]
     @ '' ''
     @ [CHR 0xED, CHR 0x85, CHR 0x8C, CHR 0xEC, CHR 0x8A, CHR 0xA4, CHR 0xED, CHR 0x8A, CHR 0xB8]
     @ '') ''
     @ [CHR 0xEC, CHR 0xA7, CHR 0x88, CHR 0xEB, CHR 0xAC, CHR 0xB8, CHR 0xEC, CHR 0x97, CHR 0x90]
     @ '' ''
     @ [CHR 0xEB, CHR 0x8C, CHR 0x80, CHR 0xED, CHR 0x95, CHR 0x9C]
     @ '' ''
     @ [CHR 0xEB, CHR 0x8B, CHR 0xB5, CHR 0xEB, CHR 0xB3, CHR 0x80, CHR 0xEC, CHR 0x9D, CHR 0x84]
     @ '' ''
     @ [CHR 0xEC, CHR 0x9C, CHR 0x84, CHR 0xED, CHR 0x95, CHR 0xB4, CHR 0xEC, CHR 0x84, CHR 0x9C, CHR 0xEB, CHR 0x8A, CHR 0x94]
     @ '' Google Custom Search API ''
     @ [CHR 0xED, CHR 0x82, CHR 0xA4, CHR 0xEC, CHR 0x99, CHR 0x80]
     @ '' ''
     @ [CHR 0xEA, CHR 0xB2, CHR 0x80, CHR 0xEC, CHR 0x83, CHR 0x89]
     @ '' ''
     @ [CHR 0xEC, CHR 0x97, CHR 0x94, CHR 0xEC, CHR 0xA7, CHR 0x84]
     @ '' ID''
     @ [CHR 0xEA, CHR 0xB0, CHR 0x80]
     @ '' ''
     @ [CHR 0xED, CHR 0x95, CHR 0x84, CHR 0xEC, CHR 0x9A, CHR 0x94, CHR 0xED, CHR 0x95, CHR 0xA9, CHR 0xEB, CHR 0x8B, CHR 0x88, CHR 0xEB, CHR 0x8B, CHR 0xA4]
     @ ''.''"

subsection \<open>google\_search\<close>

definition search_result_of_item :: "json_object \<Rightarrow> search_result" where
  "search_result_of_item item =
     \<lparr>title = dict_get item ''title'' [],
      link = dict_get item ''link'' [],
      snippet = dict_get item ''snippet'' [],
      similarity_score = None\<rparr>"

definition google_search ::
  "env \<Rightarrow> string \<Rightarrow> string \<Rightarrow> string \<Rightarrow> nat \<Rightarrow> call list
     \<Rightarrow> (error + search_result list) \<times> call list" where
  "google_search E query api_key engine_id num_results calls =
     (let calls1 = calls @ [SearchCall query api_key engine_id num_results]
      in case cse_list_execute E query api_key engine_id num_results of
           Inl e \<Rightarrow> (Inl e, calls1)
         | Inr None \<Rightarrow> (Inr [], calls1)
         | Inr (Some items) \<Rightarrow> (Inr (map search_result_of_item items), calls1))"

subsection \<open>get\_embedding\<close>

definition get_embedding :: "env \<Rightarrow> string \<Rightarrow> call list \<Rightarrow> real list option \<times> call list" where
  "get_embedding E text calls = (embed_content E text, calls @ [EmbedCall text])"

subsection \<open>filter\_results\_by\_similarity\<close>

definition result_text :: "search_result \<Rightarrow> string" where
  "result_text result = title result @ '' '' @ snippet result"

text \<open>
  The loop over \<open>search_results\<close>, with the list \<open>filtered_results\<close> as accumulator.
  The loop also stores the score in the dictionaries it does not keep; the caller never
  reads them again (it takes the length of the list only), so the model leaves them as
  they were.
\<close>

fun filter_loop ::
  "env \<Rightarrow> real list \<Rightarrow> np_float \<Rightarrow> search_result list \<Rightarrow> search_result list \<Rightarrow> call list
     \<Rightarrow> (error + search_result list) \<times> call list" where
  "filter_loop E question_embedding threshold [] filtered_results calls =
     (Inr filtered_results, calls)"
| "filter_loop E question_embedding threshold (result # rest) filtered_results calls =
     (case get_embedding E (result_text result) calls of
        (None, calls1) \<Rightarrow> filter_loop E question_embedding threshold rest filtered_results calls1
      | (Some result_embedding, calls1) \<Rightarrow>
          (case cosine_similarity (numpy E) question_embedding result_embedding of
             Inl e \<Rightarrow> (Inl e, calls1)
           | Inr similarity \<Rightarrow>
               if float_ge similarity threshold
               then filter_loop E question_embedding threshold rest
                      (filtered_results @ [result\<lparr>similarity_score := Some similarity\<rparr>]) calls1
               else filter_loop E question_embedding threshold rest filtered_results calls1))"

text \<open>
  \<open>list.sort(key=lambda x: x['similarity_score'], reverse=True)\<close>: the key of every
  element is read first (a missing key raises), then the list is sorted by descending key,
  elements of equal key keeping their order. \<open>descending_key\<close> turns the order of the
  floats around. With a NaN among the keys the outcome in Python depends on the sorting
  algorithm, and is not what this definition gives; the filter has no NaN among the keys
  it sorts, since a NaN similarity is not at least the threshold.
\<close>

definition has_score :: "search_result \<Rightarrow> bool" where
  "has_score x = (similarity_score x \<noteq> None)"

definition descending_key :: "np_float \<Rightarrow> int \<times> real" where
  "descending_key a = (- float_rank a, - float_val a)"

definition sort_by_score_reverse :: "search_result list \<Rightarrow> error + search_result list" where
  "sort_by_score_reverse xs =
     (if list_all has_score xs
      then Inr (sort_key (\<lambda>x. descending_key (the (similarity_score x))) xs)
      else Inl (KeyError ''similarity_score''))"

definition filter_results_by_similarity ::
  "env \<Rightarrow> string \<Rightarrow> search_result list \<Rightarrow> np_float \<Rightarrow> call list
     \<Rightarrow> (error + search_result list) \<times> call list" where
  "filter_results_by_similarity E question search_results threshold calls =
     (case get_embedding E question calls of
        (None, calls1) \<Rightarrow> (Inr search_results, calls1)
      | (Some question_embedding, calls1) \<Rightarrow>
          (case filter_loop E question_embedding threshold search_results [] calls1 of
             (Inl e, calls2) \<Rightarrow> (Inl e, calls2)
           | (Inr filtered_results, calls2) \<Rightarrow> (sort_by_score_reverse filtered_results, calls2)))"

subsection \<open>ask\_gemini\_with\_context\<close>

text \<open>The loop that builds the context, \<open>idx\<close> counting from 1.\<close>

fun build_context :: "nat \<Rightarrow> search_result list \<Rightarrow> string \<Rightarrow> error + string" where
  "build_context idx [] context = Inr context"
| "build_context idx (result # rest) context =
     (case similarity_score result of
        None \<Rightarrow> Inl (KeyError ''similarity_score'')
      | Some score \<Rightarrow>
          build_context (Suc idx) rest
            (context
             @ str_nat idx @ ''. '' @ title result @ ''\<newline>''
             @ source_label @ link result @ ''\<newline>''
             @ content_label @ snippet result @ ''\<newline>''
             @ relevance_label @ format_2f score @ ''\<newline>\<newline>''))"

definition make_prompt :: "string \<Rightarrow> string \<Rightarrow> string" where
  "make_prompt context question =
     context @ ''\<newline>\<newline>'' @ answer_request @ ''\<newline>\<newline>''
     @ question_label @ question @ ''\<newline>\<newline>'' @ citation_instruction"

text \<open>Lines 137 to 152 of the source: the prompt, before the generation request.\<close>

definition build_prompt :: "string \<Rightarrow> search_result list \<Rightarrow> error + string" where
  "build_prompt question curated_results =
     (case build_context 1 curated_results context_header of
        Inl e \<Rightarrow> Inl e
      | Inr context \<Rightarrow> Inr (make_prompt context question))"

definition ask_gemini_with_context ::
  "env \<Rightarrow> string \<Rightarrow> search_result list \<Rightarrow> call list \<Rightarrow> (error + string) \<times> call list" where
  "ask_gemini_with_context E question curated_results calls =
     (case build_prompt question curated_results of
        Inl e \<Rightarrow> (Inl e, calls)
      | Inr prompt \<Rightarrow> (generate_content E prompt, calls @ [GenerateCall prompt]))"

subsection \<open>The endpoint /api/ask\<close>

text \<open>
  The three JSON bodies the endpoint builds, and \<open>str(e)\<close> of the exceptions of the model.
\<close>

datatype response_body =
    ErrorBody string
  | CredentialsBody string string "search_result list"
  | AnswerPayload string "search_result list" nat nat

definition str_error :: "error \<Rightarrow> string" where
  "str_error e =
     (case e of
        KeyError k \<Rightarrow> [CHR 0x27] @ k @ [CHR 0x27]
      | ValueError m n \<Rightarrow>
          ''shapes ('' @ str_nat m @ '',) and ('' @ str_nat n @ '',) not aligned: ''
          @ str_nat m @ '' (dim 0) != '' @ str_nat n @ '' (dim 0)''
      | ProviderError msg \<Rightarrow> msg)"

text \<open>
  \<open>ask E data calls\<close>: \<open>data\<close> is the JSON object of the request body, \<open>calls\<close> the
  outbound calls made so far. The result is the body and the status code of the response,
  and the outbound calls made by then. Every \<open>Inl\<close>
  is the exception handler at the end of the function. A request body that is not a JSON
  object, or whose question is not a string, is not an input of the model. What the
  function prints is not modelled.
\<close>

definition ask :: "env \<Rightarrow> json_object \<Rightarrow> call list \<Rightarrow> (response_body \<times> nat) \<times> call list" where
  "ask E data calls =
     (let question = dict_get data ''question'' []
      in if question = [] then ((ErrorBody msg_question_required, 400), calls)
         else if GOOGLE_SEARCH_API_KEY E = [] \<or> GOOGLE_SEARCH_ENGINE_ID E = []
         then ((CredentialsBody msg_credentials_required msg_credentials_answer [], 200), calls)
         else
           (case google_search E question (GOOGLE_SEARCH_API_KEY E) (GOOGLE_SEARCH_ENGINE_ID E)
                   10 calls of
              (Inl e, calls1) \<Rightarrow> ((ErrorBody (str_error e), 500), calls1)
            | (Inr search_results, calls1) \<Rightarrow>
                (case filter_results_by_similarity E question search_results (Finite float64_0_3)
                        calls1 of
                   (Inl e, calls2) \<Rightarrow> ((ErrorBody (str_error e), 500), calls2)
                 | (Inr curated_results, calls2) \<Rightarrow>
                     (case ask_gemini_with_context E question curated_results calls2 of
                        (Inl e, calls3) \<Rightarrow> ((ErrorBody (str_error e), 500), calls3)
                      | (Inr answer, calls3) \<Rightarrow>
                          ((AnswerPayload answer curated_results
                              (length search_results) (length curated_results), 200), calls3)))))"

subsection \<open>Notions of the specification\<close>

text \<open>
  What the specification says of one result in the relevance filter: it is kept when its
  own embedding succeeds and its cosine similarity to the question embedding, as
  \<open>cosine_similarity\<close> computes it, is at least the threshold, and then it carries that
  similarity as its score.
\<close>

definition scored_if_relevant ::
  "env \<Rightarrow> real list \<Rightarrow> np_float \<Rightarrow> search_result \<Rightarrow> search_result option" where
  "scored_if_relevant E question_embedding threshold r =
     (case embed_content E (result_text r) of
        None \<Rightarrow> None
      | Some result_embedding \<Rightarrow>
          (case cosine_similarity (numpy E) question_embedding result_embedding of
             Inl e \<Rightarrow> None
           | Inr s \<Rightarrow>
               if float_ge s threshold then Some (r\<lparr>similarity_score := Some s\<rparr>) else None))"

text \<open>
  What the specification says of one result in the prompt: its index, title, link, snippet
  and score to two decimals.
\<close>

definition context_entry :: "nat \<Rightarrow> search_result \<Rightarrow> string" where
  "context_entry idx r =
     str_nat idx @ ''. '' @ title r @ ''\<newline>''
     @ source_label @ link r @ ''\<newline>''
     @ content_label @ snippet r @ ''\<newline>''
     @ relevance_label @ format_2f (the (similarity_score r)) @ ''\<newline>\<newline>''"

text \<open>The citation marker \<open>[i]\<close>, and whether the prompt for given results contains it.\<close>

definition citation_marker :: "nat \<Rightarrow> string" where
  "citation_marker i = ''['' @ str_nat i @ '']''"

definition prompt_has_marker :: "nat \<Rightarrow> string \<Rightarrow> search_result list \<Rightarrow> bool" where
  "prompt_has_marker i question curated_results =
     (case build_prompt question curated_results of
        Inl e \<Rightarrow> False
      | Inr prompt \<Rightarrow> sublist (citation_marker i) prompt)"

subsection \<open>An example run\<close>

text \<open>
  A question, six search results in the order the search returns them, and an embedding
  service that fails on the third. Against the question vector the cosine similarities
  are 0.5, 0, none, 0.75, 0.5 and 1, in float64 as over the reals. The arithmetic is
  float64.
\<close>

definition example_question :: string where
  "example_question = ''capital of France''"

definition example_items :: "json_object list" where
  "example_items =
     [[''title'' \<mapsto> ''Eiffel'', ''link'' \<mapsto> ''http://e'', ''snippet'' \<mapsto> ''tower''],
      [''title'' \<mapsto> ''Cuisine'', ''link'' \<mapsto> ''http://c'', ''snippet'' \<mapsto> ''recipes''],
      [''title'' \<mapsto> ''Broken'', ''link'' \<mapsto> ''http://b'', ''snippet'' \<mapsto> ''page''],
      [''title'' \<mapsto> ''Louvre'', ''link'' \<mapsto> ''http://l'', ''snippet'' \<mapsto> ''museum''],
      [''title'' \<mapsto> ''Seine'', ''link'' \<mapsto> ''http://s'', ''snippet'' \<mapsto> ''river''],
      [''title'' \<mapsto> ''Paris'', ''link'' \<mapsto> ''http://p'', ''snippet'' \<mapsto> ''capital'']]"

definition example_result :: "string \<Rightarrow> string \<Rightarrow> string \<Rightarrow> np_float option \<Rightarrow> search_result" where
  "example_result t l s sc = \<lparr>title = t, link = l, snippet = s, similarity_score = sc\<rparr>"

definition example_results :: "search_result list" where
  "example_results =
     [example_result ''Eiffel'' ''http://e'' ''tower'' None,
      example_result ''Cuisine'' ''http://c'' ''recipes'' None,
      example_result ''Broken'' ''http://b'' ''page'' None,
      example_result ''Louvre'' ''http://l'' ''museum'' None,
      example_result ''Seine'' ''http://s'' ''river'' None,
      example_result ''Paris'' ''http://p'' ''capital'' None]"

definition example_curated :: "search_result list" where
  "example_curated =
     [example_result ''Paris'' ''http://p'' ''capital'' (Some (Finite 1)),
      example_result ''Louvre'' ''http://l'' ''museum'' (Some (Finite (3 / 4))),
      example_result ''Eiffel'' ''http://e'' ''tower'' (Some (Finite (1 / 2))),
      example_result ''Seine'' ''http://s'' ''river'' (Some (Finite (1 / 2)))]"

definition example_embedding :: "string \<Rightarrow> real list option" where
  "example_embedding text =
     (if text = ''capital of France'' then Some [1, 0, 0, 0, 0]
      else if text = ''Eiffel tower'' then Some [1, 1, 1, 1, 0]
      else if text = ''Cuisine recipes'' then Some [0, 1, 0, 0, 0]
      else if text = ''Louvre museum'' then Some [3, 2, 1, 1, 1]
      else if text = ''Seine river'' then Some [2, 2, 2, 2, 0]
      else if text = ''Paris capital'' then Some [1, 0, 0, 0, 0]
      else None)"

definition example_env :: env where
  "example_env =
     \<lparr>numpy = float64_arith,
      GOOGLE_SEARCH_API_KEY = ''key'', GOOGLE_SEARCH_ENGINE_ID = ''cx'',
      cse_list_execute = (\<lambda>q k c n. Inr (Some example_items)),
      embed_content = example_embedding,
      generate_content = (\<lambda>prompt. Inr ''Paris [1]'')\<rparr>"

text \<open>The same, with an embedding service that always fails.\<close>

definition example_env_no_embedding :: env where
  "example_env_no_embedding = example_env\<lparr>embed_content := (\<lambda>text. None)\<rparr>"

text \<open>
  The same, with an embedding service that answers the question with a vector of two
  entries and every other text with a vector of one.
\<close>

definition example_env_dimensions :: env where
  "example_env_dimensions =
     example_env\<lparr>embed_content :=
       (\<lambda>text. if text = ''capital of France'' then Some [1, 0] else Some [1])\<rparr>"

section \<open>Float arithmetic\<close>

subsection \<open>Rounding to float64\<close>

lemma round_half_even_nearest:
  assumes "of_int m - 1 / 2 < x" and "x < of_int m + 1 / 2"
  shows "round_half_even x = m"
proof -
  have "\<lfloor>x\<rfloor> = m \<or> \<lfloor>x\<rfloor> = m - 1"
    using assms by linarith
  then show ?thesis
  proof
    assume f: "\<lfloor>x\<rfloor> = m"
    then have "x - of_int m < 1 / 2" using assms by linarith
    with f show ?thesis by (simp add: round_half_even_def Let_def)
  next
    assume f: "\<lfloor>x\<rfloor> = m - 1"
    then have "1 / 2 < x - of_int (m - 1)" using assms by simp
    with f show ?thesis by (simp add: round_half_even_def Let_def)
  qed
qed

lemma float64_round_normal:
  fixes x :: real
  assumes "2 powr of_int e \<le> \<bar>x\<bar>" and "\<bar>x\<bar> < 2 powr of_int (e + 1)" and "- 1022 \<le> e"
    and "round_half_even (x / 2 powr of_int (e - 52)) = n"
    and "\<bar>of_int n * (2::real) powr of_int (e - 52)\<bar> < 2 ^ 1024"
  shows "float64_round x = Finite (of_int n * 2 powr of_int (e - 52))"
proof -
  have pos: "0 < \<bar>x\<bar>"
    using assms(1) powr_gt_zero [of 2 "of_int e"] by linarith
  have "\<lfloor>log 2 \<bar>x\<bar>\<rfloor> = e"
    using assms(1,2) pos by (simp add: floor_log_eq_powr_iff)
  moreover have "x \<noteq> 0" using pos by simp
  moreover have "max e (- 1022) = e" using assms(3) by simp
  ultimately show ?thesis
    using assms(4,5) unfolding float64_round_def Let_def
    by (simp only: if_False linorder_not_le [symmetric])
qed

lemma float64_round_nearest:
  fixes x :: real
  assumes "2 powr of_int e \<le> \<bar>x\<bar>" and "\<bar>x\<bar> < 2 powr of_int (e + 1)" and "- 1022 \<le> e"
    and "of_int n - 1 / 2 < x / 2 powr of_int (e - 52)"
    and "x / 2 powr of_int (e - 52) < of_int n + 1 / 2"
    and "\<bar>of_int n * (2::real) powr of_int (e - 52)\<bar> < 2 ^ 1024"
  shows "float64_round x = Finite (of_int n * 2 powr of_int (e - 52))"
  using assms(1,2,3) round_half_even_nearest [OF assms(4,5)] assms(6)
  by (rule float64_round_normal)

lemma float64_round_0: "float64_round 0 = Finite 0"
  by (simp add: float64_round_def)

lemma float64_round_1: "float64_round 1 = Finite 1"
  using float64_round_nearest [of 0 "1" 4503599627370496] by (simp add: powr_minus)

lemma float64_round_2: "float64_round 2 = Finite 2"
  using float64_round_nearest [of 1 "2" 4503599627370496] by (simp add: powr_minus)

lemma float64_round_3: "float64_round 3 = Finite 3"
  using float64_round_nearest [of 1 "3" 6755399441055744] by (simp add: powr_minus)

lemma float64_round_4: "float64_round 4 = Finite 4"
  using float64_round_nearest [of 2 "4" 4503599627370496] by (simp add: powr_minus)

lemma float64_round_8: "float64_round 8 = Finite 8"
  using float64_round_nearest [of 3 "8" 4503599627370496] by (simp add: powr_minus)

lemma float64_round_9: "float64_round 9 = Finite 9"
  using float64_round_nearest [of 3 "9" 5066549580791808] by (simp add: powr_minus)

lemma float64_round_12: "float64_round 12 = Finite 12"
  using float64_round_nearest [of 3 "12" 6755399441055744] by (simp add: powr_minus)

lemma float64_round_13: "float64_round 13 = Finite 13"
  using float64_round_nearest [of 3 "13" 7318349394477056] by (simp add: powr_minus)

lemma float64_round_14: "float64_round 14 = Finite 14"
  using float64_round_nearest [of 3 "14" 7881299347898368] by (simp add: powr_minus)

lemma float64_round_15: "float64_round 15 = Finite 15"
  using float64_round_nearest [of 3 "15" 8444249301319680] by (simp add: powr_minus)

lemma float64_round_16: "float64_round 16 = Finite 16"
  using float64_round_nearest [of 4 "16" 4503599627370496] by (simp add: powr_minus)

lemma float64_round_half: "float64_round (1 / 2) = Finite (1 / 2)"
  using float64_round_nearest [of "- 1" "(1 / 2)" 4503599627370496] by (simp add: powr_minus)

lemma float64_round_three_quarters: "float64_round (3 / 4) = Finite (3 / 4)"
  using float64_round_nearest [of "- 1" "(3 / 4)" 6755399441055744] by (simp add: powr_minus)

lemma float64_round_three_tenths: "float64_round (3 / 10) = Finite float64_0_3"
  using float64_round_nearest [of "- 2" "3 / 10" 5404319552844595]
  by (simp add: powr_minus float64_0_3_def)

lemma float64_round_sqrt_3:
  "float64_round (sqrt 3) = Finite (3900231685776981 / 2251799813685248)"
proof -
  have lo: "1 \<le> sqrt 3" by simp
  have hi: "sqrt 3 < 2"
    by (rule real_less_lsqrt) simp_all
  have a: "7800463371553961.5 / 2 ^ 52 < sqrt 3"
    by (rule real_less_rsqrt) (simp add: power2_eq_square)
  have b: "sqrt 3 < 7800463371553962.5 / 2 ^ 52"
    by (rule real_less_lsqrt) (simp_all add: power2_eq_square)
  have a': "of_int 7800463371553962 - 1 / 2 < sqrt 3 / 2 powr of_int (0 - 52)"
    using a by (simp add: powr_minus field_simps)
  have b': "sqrt 3 / 2 powr of_int (0 - 52) < of_int 7800463371553962 + 1 / 2"
    using b by (simp add: powr_minus field_simps)
  have "float64_round (sqrt 3)
        = Finite (of_int 7800463371553962 * 2 powr of_int (0 - 52))"
    using lo hi by (intro float64_round_nearest a' b') (simp_all add: powr_minus)
  then show ?thesis by (simp add: powr_minus)
qed

lemma float64_round_norm_squared:
  "float64_round (15211807202738751055289669474361 / 5070602400912917605986812821504)
   = Finite (6755399441055743 / 2251799813685248)"
  using float64_round_nearest
    [of 1 "15211807202738751055289669474361 / 5070602400912917605986812821504"
       6755399441055743]
  by (simp add: powr_minus)

lemma float64_round_quotient:
  "float64_round (6755399441055744 / 6755399441055743)
   = Finite (4503599627370497 / 4503599627370496)"
  using float64_round_nearest [of 0 "6755399441055744 / 6755399441055743" 4503599627370497]
  by (simp add: powr_minus)

subsection \<open>Sums of squares and the Cauchy-Schwarz inequality on lists\<close>

lemma sum_sq_nonneg: "0 \<le> sum_list (map (\<lambda>x. x * x) (v::real list))"
  by (induction v) auto

lemma cs_step:
  fixes s A B x y :: real
  assumes "s * s \<le> A * B" "0 \<le> A" "0 \<le> B"
  shows "(s + x * y) * (s + x * y) \<le> (A + x * x) * (B + y * y)"
proof -
  have "(2 * s * x * y)\<^sup>2 = 4 * (s * s) * (x * x * (y * y))"
    by (simp add: power2_eq_square algebra_simps)
  also have "\<dots> \<le> 4 * (A * B) * (x * x * (y * y))"
    using assms(1) by (intro mult_right_mono mult_left_mono) auto
  also have "\<dots> \<le> (A * (y * y) + B * (x * x))\<^sup>2"
  proof -
    have "0 \<le> (A * (y * y) - B * (x * x))\<^sup>2" by simp
    then show ?thesis by (simp add: power2_eq_square algebra_simps)
  qed
  finally have "\<bar>2 * s * x * y\<bar> \<le> \<bar>A * (y * y) + B * (x * x)\<bar>"
    by (simp only: abs_le_square_iff)
  moreover have "0 \<le> A * (y * y) + B * (x * x)"
    using assms(2,3) by simp
  ultimately have "2 * s * x * y \<le> A * (y * y) + B * (x * x)"
    by linarith
  then show ?thesis using assms(1) by (simp add: algebra_simps)
qed

lemma cauchy_schwarz_list:
  "length a = length b \<Longrightarrow>
   sum_list (map (\<lambda>(x, y). x * y) (zip a b)) * sum_list (map (\<lambda>(x, y). x * y) (zip a b))
     \<le> sum_list (map (\<lambda>x. x * x) a) * sum_list (map (\<lambda>x. x * x) (b::real list))"
proof (induction a b rule: list_induct2)
  case Nil
  then show ?case by simp
next
  case (Cons x xs y ys)
  show ?case
    using cs_step [OF Cons.IH sum_sq_nonneg sum_sq_nonneg, of x y]
    by (simp add: algebra_simps)
qed

lemma dot_self:
  "sum_list (map (\<lambda>(x, y). x * y) (zip a a)) = sum_list (map (\<lambda>x. x * x) (a::real list))"
  by (induction a) simp_all

lemma dot_neg:
  "sum_list (map (\<lambda>(x, y). x * y) (zip a (map uminus a))) = - sum_list (map (\<lambda>x. x * x) (a::real list))"
  by (induction a) simp_all

lemma sq_neg:
  "sum_list (map (\<lambda>x. x * x) (map uminus a)) = sum_list (map (\<lambda>x. x * x) (a::real list))"
  by (induction a) simp_all

lemma dot_as_sum:
  "length a = length b \<Longrightarrow>
   sum_list (map (\<lambda>(x, y). x * y) (zip a b)) = (\<Sum>i<length a. a ! i * (b ! i :: real))"
  by (induction a b rule: list_induct2) (simp_all add: sum.lessThan_Suc_shift del: sum.lessThan_Suc)

lemma sq_as_sum:
  "sum_list (map (\<lambda>x. x * x) a) = (\<Sum>i<length a. (a ! i :: real)\<^sup>2)"
  by (induction a) (simp_all add: sum.lessThan_Suc_shift power2_eq_square del: sum.lessThan_Suc)

lemma abs_dot_le_norms:
  assumes "length a = length b"
  shows "\<bar>sum_list (map (\<lambda>(x, y). x * y) (zip a b))\<bar>
         \<le> sqrt (sum_list (map (\<lambda>x. x * x) a)) * sqrt (sum_list (map (\<lambda>x. x * x) b))"
proof -
  let ?d = "sum_list (map (\<lambda>(x, y). x * y) (zip a b))"
  have "\<bar>?d\<bar> = sqrt (?d * ?d)" by simp
  also have "\<dots> \<le> sqrt (sum_list (map (\<lambda>x. x * x) a) * sum_list (map (\<lambda>x. x * x) b))"
    using cauchy_schwarz_list [OF assms] by (simp only: real_sqrt_le_iff)
  also have "\<dots> = sqrt (sum_list (map (\<lambda>x. x * x) a)) * sqrt (sum_list (map (\<lambda>x. x * x) b))"
    by (simp add: real_sqrt_mult)
  finally show ?thesis .
qed

subsection \<open>Arithmetic without rounding\<close>

lemma exact_dot_foldl:
  "foldl (\<lambda>acc (x, y). ieee_add Finite acc (ieee_mul Finite (Finite x) (Finite y)))
     (Finite s) zs
   = Finite (s + sum_list (map (\<lambda>(x, y). x * y) zs))"
  by (induction zs arbitrary: s) (auto simp: ieee_add_def ieee_mul_def algebra_simps)

lemma exact_dot: "f_dot exact_arith a b = Finite (sum_list (map (\<lambda>(x, y). x * y) (zip a b)))"
  by (simp add: exact_arith_def ieee_def ieee_dot_def exact_dot_foldl)

lemma exact_norm: "f_norm exact_arith a = Finite (sqrt (sum_list (map (\<lambda>x. x * x) a)))"
  using exact_dot [of a a] sum_sq_nonneg [of a]
  by (simp add: exact_arith_def ieee_def ieee_norm_def ieee_sqrt_def dot_self)

lemma exact_mul: "f_mul exact_arith (Finite x) (Finite y) = Finite (x * y)"
  by (simp add: exact_arith_def ieee_def ieee_mul_def)

lemma exact_div: "y \<noteq> 0 \<Longrightarrow> f_div exact_arith (Finite x) (Finite y) = Finite (x / y)"
  by (simp add: exact_arith_def ieee_def ieee_div_def)

subsection \<open>Symmetry of the rounded operations\<close>

lemma ieee_dot_foldl_commute:
  "foldl (\<lambda>acc (x, y). ieee_add rnd acc (ieee_mul rnd (Finite x) (Finite y))) s (zip a b)
   = foldl (\<lambda>acc (x, y). ieee_add rnd acc (ieee_mul rnd (Finite x) (Finite y))) s (zip b a)"
proof (induction a arbitrary: b s)
  case Nil
  show ?case by simp
next
  case (Cons x xs)
  show ?case
  proof (cases b)
    case Nil
    then show ?thesis by simp
  next
    case (Cons y ys)
    then show ?thesis
      using Cons.IH [of _ ys] by (simp add: ieee_mul_def mult.commute)
  qed
qed

lemma ieee_dot_commute: "ieee_dot rnd a b = ieee_dot rnd b a"
  unfolding ieee_dot_def by (rule ieee_dot_foldl_commute)

lemma ieee_mul_commute: "ieee_mul rnd a b = ieee_mul rnd b a"
  by (cases a; cases b) (simp_all add: ieee_mul_def mult.commute)

lemma ieee_cosine_commute:
  assumes "length a = length b"
  shows "cosine_similarity (ieee rnd) a b = cosine_similarity (ieee rnd) b a"
  using assms ieee_dot_commute [of rnd a b] ieee_mul_commute [of rnd "ieee_norm rnd a"]
  by (simp add: cosine_similarity_def np_dot_def ieee_def)

subsection \<open>The cosine of a vector of three ones with itself, in float64\<close>

lemma float64_dot_ones: "f_dot float64_arith [1, 1, 1] [1, 1, 1] = Finite 3"
  by (simp add: float64_arith_def ieee_def ieee_dot_def ieee_add_def ieee_mul_def
      float64_round_1 float64_round_2 float64_round_3)

lemma float64_norm_ones:
  "f_norm float64_arith [1, 1, 1] = Finite (3900231685776981 / 2251799813685248)"
  using float64_dot_ones float64_round_sqrt_3
  by (simp add: float64_arith_def ieee_def ieee_norm_def ieee_sqrt_def)

lemma float64_norm_product_ones:
  "f_mul float64_arith (Finite (3900231685776981 / 2251799813685248))
     (Finite (3900231685776981 / 2251799813685248))
   = Finite (6755399441055743 / 2251799813685248)"
  using float64_round_norm_squared
  by (simp add: float64_arith_def ieee_def ieee_mul_def)

lemma float64_quotient_ones:
  "f_div float64_arith (Finite 3) (Finite (6755399441055743 / 2251799813685248))
   = Finite (4503599627370497 / 4503599627370496)"
  using float64_round_quotient
  by (simp add: float64_arith_def ieee_def ieee_div_def)

subsection \<open>Cosine similarity\<close>

text \<open>
  Claim C7, as the code has it. For vectors \<open>a\<close> and \<open>b\<close> of equal length, neither of norm
  zero:
  \<^item> in float64, and with any other rounding of the single operations,
    \<open>cosine_similarity\<close> is the same for \<open>a\<close>, \<open>b\<close> and for \<open>b\<close>, \<open>a\<close>;
  \<^item> when no operation rounds, \<open>cosine_similarity a b\<close> is the quotient of the dot product
    \<open>\<Sum>i. a\<^sub>i * b\<^sub>i\<close> by the product of the norms \<open>sqrt (\<Sum>i. a\<^sub>i\<^sup>2)\<close> and \<open>sqrt (\<Sum>i. b\<^sub>i\<^sup>2)\<close>, it
    lies between -1 and 1, it is 1 for a vector and itself and -1 for a vector and its
    negation.
  In float64 every operation rounds its result, and the last four need not hold: see the
  counterexample below.
\<close>

theorem cosine_similarity_properties:
  assumes len: "length a = length b"
    and na: "f_norm exact_arith a \<noteq> Finite 0" and nb: "f_norm exact_arith b \<noteq> Finite 0"
  shows "cosine_similarity (ieee rnd) a b = cosine_similarity (ieee rnd) b a
       \<and> (\<exists>c. cosine_similarity exact_arith a b = Inr (Finite c)
            \<and> c = (\<Sum>i<length a. a ! i * b ! i)
                    / (sqrt (\<Sum>i<length a. (a ! i)\<^sup>2) * sqrt (\<Sum>i<length b. (b ! i)\<^sup>2))
            \<and> - 1 \<le> c \<and> c \<le> 1)
       \<and> cosine_similarity exact_arith a a = Inr (Finite 1)
       \<and> cosine_similarity exact_arith a (map uminus a) = Inr (Finite (- 1))"
proof -
  let ?d = "sum_list (map (\<lambda>(x, y). x * y) (zip a b))"
  let ?na = "sqrt (sum_list (map (\<lambda>x. x * x) a))"
  let ?nb = "sqrt (sum_list (map (\<lambda>x. x * x) b))"
  let ?n = "?na * ?nb"
  have na0: "?na \<noteq> 0" using na by (simp add: exact_norm)
  have nb0: "?nb \<noteq> 0" using nb by (simp add: exact_norm)
  have nonneg: "0 \<le> ?na" "0 \<le> ?nb" by (simp_all add: sum_sq_nonneg)
  have pos: "0 < ?n"
    using na0 nb0 nonneg by (simp add: less_le)
  have val: "cosine_similarity exact_arith a b = Inr (Finite (?d / ?n))"
    using len na0 nb0
    by (simp add: cosine_similarity_def np_dot_def exact_dot exact_norm exact_mul exact_div)
  have formula: "?d / ?n = (\<Sum>i<length a. a ! i * b ! i)
                    / (sqrt (\<Sum>i<length a. (a ! i)\<^sup>2) * sqrt (\<Sum>i<length b. (b ! i)\<^sup>2))"
    by (simp add: dot_as_sum [OF len] sq_as_sum)
  have "\<bar>?d / ?n\<bar> \<le> 1"
    using abs_dot_le_norms [OF len] pos by simp
  then have "?d / ?n \<le> 1" and "- (?d / ?n) \<le> 1"
    by (rule abs_le_D1, rule abs_le_D2)
  then have bounds: "- 1 \<le> ?d / ?n \<and> ?d / ?n \<le> 1"
    by (simp only: minus_le_iff [of 1] simp_thms)
  have sq: "sum_list (map (\<lambda>x. x * x) a) \<noteq> 0"
    using na0 by auto
  have nn: "?na * ?na = sum_list (map (\<lambda>x. x * x) a)"
    by (simp add: sum_sq_nonneg)
  have self: "cosine_similarity exact_arith a a = Inr (Finite 1)"
    using sq na0
    by (simp add: cosine_similarity_def np_dot_def exact_dot exact_norm exact_mul exact_div
        dot_self nn abs_of_nonneg [OF sum_sq_nonneg])
  have "f_norm exact_arith (map uminus a) = Finite ?na"
    by (simp only: exact_norm sq_neg)
  then have neg: "cosine_similarity exact_arith a (map uminus a) = Inr (Finite (- 1))"
    using sq na0
    by (simp add: cosine_similarity_def np_dot_def exact_dot exact_norm exact_mul exact_div
        dot_neg nn abs_of_nonneg [OF sum_sq_nonneg])
  from ieee_cosine_commute [OF len] val formula bounds self neg show ?thesis by simp
qed

theorem cosine_similarity_properties_witness:
  "length [3, 4 :: real] = length [4, 3 :: real]
   \<and> f_norm exact_arith [3, 4] \<noteq> Finite 0 \<and> f_norm exact_arith [4, 3] \<noteq> Finite 0
   \<and> cosine_similarity (ieee float64_round) [3, 4] [4, 3]
     = cosine_similarity (ieee float64_round) [4, 3] [3, 4]
   \<and> (\<exists>c. cosine_similarity exact_arith [3, 4] [4, 3] = Inr (Finite c)
            \<and> c = (\<Sum>i<length [3, 4 :: real]. [3, 4] ! i * [4, 3] ! i)
                    / (sqrt (\<Sum>i<length [3, 4 :: real]. ([3, 4] ! i)\<^sup>2)
                       * sqrt (\<Sum>i<length [4, 3 :: real]. ([4, 3] ! i)\<^sup>2))
            \<and> - 1 \<le> c \<and> c \<le> 1)
   \<and> cosine_similarity exact_arith [3, 4] [3, 4] = Inr (Finite 1)
   \<and> cosine_similarity exact_arith [3, 4] (map uminus [3, 4]) = Inr (Finite (- 1))"
proof -
  have s: "sqrt 25 = 5"
    using real_sqrt_abs [of 5] by simp
  have len: "length [3, 4 :: real] = length [4, 3 :: real]" by simp
  have na: "f_norm exact_arith [3, 4] \<noteq> Finite 0" by (simp add: exact_norm s)
  have nb: "f_norm exact_arith [4, 3] \<noteq> Finite 0" by (simp add: exact_norm s)
  from len na nb cosine_similarity_properties [OF len na nb, of float64_round] show ?thesis
    by blast
qed

text \<open>
  The claim as the specification states it, with the exact values 1.0 and the bounds -1
  and 1, fails in float64: for the vector of three ones and itself the norm is the float
  nearest to the square root of 3, the product of the two norms rounds to
  2.9999999999999996, and the quotient is 1.0000000000000002, above 1.
\<close>

theorem float64_cosine_counterexample:
  "cosine_similarity float64_arith [1, 1, 1] [1, 1, 1]
   = Inr (Finite (4503599627370497 / 4503599627370496))
   \<and> cosine_similarity float64_arith [1, 1, 1] [1, 1, 1] \<noteq> Inr (Finite 1)"
  by (simp add: cosine_similarity_def np_dot_def float64_dot_ones float64_norm_ones
      float64_norm_product_ones float64_quotient_ones)

section \<open>The relevance filter\<close>

subsection \<open>The order of floats\<close>

lemma float_ge_not_NaN: "float_ge a b \<Longrightarrow> a \<noteq> NaN"
  by (simp add: float_ge_def)

lemma descending_key_le:
  assumes "a \<noteq> NaN" and "b \<noteq> NaN"
  shows "descending_key a \<le> descending_key b \<longleftrightarrow> float_ge a b"
  using assms by (auto simp: descending_key_def float_ge_def less_eq_prod_def)

lemma descending_key_eq: "descending_key a = descending_key b \<longleftrightarrow> a = b"
  by (cases a; cases b) (simp_all add: descending_key_def float_rank_def float_val_def)

subsection \<open>The loop and the sort\<close>

lemma result_text_score [simp]:
  "result_text (r\<lparr>similarity_score := s\<rparr>) = result_text r"
  by (simp add: result_text_def)

lemma filter_loop_result_independent_of_calls:
  "fst (filter_loop E qe th rs acc c1) = fst (filter_loop E qe th rs acc c2)"
proof (induction rs arbitrary: acc c1 c2)
  case Nil
  show ?case by simp
next
  case (Cons r rs)
  show ?case
    using Cons.IH
    by (simp add: get_embedding_def split: option.split sum.split)
qed

lemma filter_loop_skips_failed_embedding:
  assumes "embed_content E (result_text r) = None"
  shows "fst (filter_loop E qe th (xs @ r # ys) acc c1)
         = fst (filter_loop E qe th (xs @ ys) acc c2)"
proof (induction xs arbitrary: acc c1 c2)
  case Nil
  show ?case
    using assms filter_loop_result_independent_of_calls [of E qe th ys acc]
    by (simp add: get_embedding_def)
next
  case (Cons x xs)
  show ?case
    using Cons.IH
    by (simp add: get_embedding_def split: option.split sum.split)
qed

lemma filter_loop_closed_form:
  assumes "\<forall>r\<in>set rs. \<forall>re. embed_content E (result_text r) = Some re \<longrightarrow> length re = length qe"
  shows "fst (filter_loop E qe th rs acc calls)
         = Inr (acc @ List.map_filter (scored_if_relevant E qe th) rs)"
  using assms
proof (induction rs arbitrary: acc calls)
  case Nil
  show ?case by (simp add: List.map_filter_simps)
next
  case (Cons r rs)
  then have IH: "\<And>acc calls. fst (filter_loop E qe th rs acc calls)
         = Inr (acc @ List.map_filter (scored_if_relevant E qe th) rs)"
    by simp
  show ?case
  proof (cases "embed_content E (result_text r)")
    case None
    then have "scored_if_relevant E qe th r = None"
      by (simp add: scored_if_relevant_def)
    with None show ?thesis
      by (simp add: get_embedding_def IH List.map_filter_simps)
  next
    case (Some re)
    with Cons.prems have "length re = length qe" by simp
    then obtain v where v: "cosine_similarity (numpy E) qe re = Inr v"
      by (auto simp: cosine_similarity_def np_dot_def)
    have "scored_if_relevant E qe th r
          = (if float_ge v th then Some (r\<lparr>similarity_score := Some v\<rparr>) else None)"
      using Some v by (simp add: scored_if_relevant_def)
    with Some v show ?thesis
      by (simp add: get_embedding_def IH List.map_filter_simps)
  qed
qed

lemma filter_loop_output:
  assumes "fst (filter_loop E qe th rs acc calls) = Inr out"
  shows "length out \<le> length acc + length rs
         \<and> (\<forall>x\<in>set out. x \<in> set acc
               \<or> (embed_content E (result_text x) \<noteq> None
                  \<and> (\<exists>s. similarity_score x = Some s \<and> float_ge s th)))"
  using assms
proof (induction rs arbitrary: acc calls)
  case Nil
  then show ?case by auto
next
  case (Cons r rs)
  show ?case
  proof (cases "embed_content E (result_text r)")
    case None
    with Cons.prems have "fst (filter_loop E qe th rs acc (calls @ [EmbedCall (result_text r)])) = Inr out"
      by (simp add: get_embedding_def)
    from Cons.IH [OF this] show ?thesis by auto
  next
    case (Some re)
    show ?thesis
    proof (cases "cosine_similarity (numpy E) qe re")
      case (Inl e)
      with Some Cons.prems show ?thesis by (simp add: get_embedding_def)
    next
      case (Inr s)
      show ?thesis
      proof (cases "float_ge s th")
        case True
        with Some Inr Cons.prems
        have "fst (filter_loop E qe th rs (acc @ [r\<lparr>similarity_score := Some s\<rparr>])
                 (calls @ [EmbedCall (result_text r)])) = Inr out"
          by (simp add: get_embedding_def)
        from Cons.IH [OF this] True Some show ?thesis by auto
      next
        case False
        with Some Inr Cons.prems
        have "fst (filter_loop E qe th rs acc (calls @ [EmbedCall (result_text r)])) = Inr out"
          by (simp add: get_embedding_def)
        from Cons.IH [OF this] show ?thesis by auto
      qed
    qed
  qed
qed

lemma scored_if_relevant_Some:
  assumes "scored_if_relevant E qe th r = Some x"
  shows "\<exists>s. x = r\<lparr>similarity_score := Some s\<rparr> \<and> float_ge s th"
  using assms
  by (auto simp: scored_if_relevant_def split: option.splits sum.splits if_splits)

lemma kept_all_scored:
  assumes "x \<in> set (List.map_filter (scored_if_relevant E qe th) rs)"
  shows "\<exists>s. similarity_score x = Some s \<and> float_ge s th"
proof -
  from assms obtain r where "scored_if_relevant E qe th r = Some x"
    by (auto simp: List.map_filter_def)
  from scored_if_relevant_Some [OF this] show ?thesis by auto
qed

lemma sort_by_score_reverse_scored:
  assumes "\<forall>x\<in>set xs. has_score x"
  shows "sort_by_score_reverse xs
         = Inr (sort_key (\<lambda>x. descending_key (the (similarity_score x))) xs)"
  using assms by (simp add: sort_by_score_reverse_def list_all_iff)

lemma sort_by_score_reverse_Inr:
  assumes "sort_by_score_reverse xs = Inr out"
  shows "mset out = mset xs"
  using assms by (auto simp: sort_by_score_reverse_def split: if_splits)

lemma sort_key_descending:
  assumes "\<forall>x\<in>set xs. \<exists>s. similarity_score x = Some s \<and> s \<noteq> NaN"
  shows "sorted_wrt (\<lambda>a b. \<exists>x y. similarity_score a = Some x \<and> similarity_score b = Some y
                          \<and> float_ge x y)
           (sort_key (\<lambda>x. descending_key (the (similarity_score x))) xs)"
proof -
  let ?f = "\<lambda>x. descending_key (the (similarity_score x))"
  have "sorted (map ?f (sort_key ?f xs))" by (rule sorted_sort_key)
  then have "sorted_wrt (\<lambda>a b. ?f a \<le> ?f b) (sort_key ?f xs)"
    by (simp only: sorted_map)
  moreover have "\<forall>x\<in>set (sort_key ?f xs). \<exists>s. similarity_score x = Some s \<and> s \<noteq> NaN"
    using assms by simp
  ultimately show ?thesis
  proof (elim sorted_wrt_mono_rel [rotated])
    fix a b
    assume all: "\<forall>x\<in>set (sort_key ?f xs). \<exists>s. similarity_score x = Some s \<and> s \<noteq> NaN"
      and a: "a \<in> set (sort_key ?f xs)" and b: "b \<in> set (sort_key ?f xs)"
      and le: "?f a \<le> ?f b"
    from all a obtain x where x: "similarity_score a = Some x" "x \<noteq> NaN" by blast
    from all b obtain y where y: "similarity_score b = Some y" "y \<noteq> NaN" by blast
    from le x y have "float_ge x y"
      by (simp add: descending_key_le)
    with x y show "\<exists>x y. similarity_score a = Some x \<and> similarity_score b = Some y \<and> float_ge x y"
      by simp
  qed
qed

lemma sort_key_keeps_order_of_equal_scores:
  assumes "\<forall>x\<in>set xs. has_score x"
  shows "filter (\<lambda>x. similarity_score x = Some k)
           (sort_key (\<lambda>x. descending_key (the (similarity_score x))) xs)
         = filter (\<lambda>x. similarity_score x = Some k) xs"
proof -
  let ?f = "\<lambda>x. descending_key (the (similarity_score x))"
  have eq: "\<And>ys. \<forall>x\<in>set ys. has_score x \<Longrightarrow>
              filter (\<lambda>x. similarity_score x = Some k) ys
              = filter (\<lambda>x. ?f x = descending_key k) ys"
    by (rule filter_cong) (auto simp: has_score_def descending_key_eq)
  have "filter (\<lambda>x. similarity_score x = Some k) (sort_key ?f xs)
        = filter (\<lambda>x. ?f x = descending_key k) (sort_key ?f xs)"
    using assms by (intro eq) simp
  also have "\<dots> = filter (\<lambda>x. ?f x = descending_key k) xs"
    by (rule sort_key_stable)
  also have "\<dots> = filter (\<lambda>x. similarity_score x = Some k) xs"
    using assms by (simp only: eq)
  finally show ?thesis .
qed

lemma fst_filter_results_by_similarity:
  assumes "embed_content E question = Some qe"
  shows "fst (filter_results_by_similarity E question rs th calls)
         = (case fst (filter_loop E qe th rs [] (calls @ [EmbedCall question])) of
              Inl e \<Rightarrow> Inl e
            | Inr filtered \<Rightarrow> sort_by_score_reverse filtered)"
  using assms
  by (simp add: filter_results_by_similarity_def get_embedding_def split: prod.split sum.split)

lemma filter_results_output:
  assumes "fst (filter_results_by_similarity E question rs th calls) = Inr out"
  shows "length out \<le> length rs
         \<and> (out = rs \<and> embed_content E question = None
            \<or> (\<forall>x\<in>set out. \<exists>s. similarity_score x = Some s \<and> float_ge s th))"
proof (cases "embed_content E question")
  case None
  with assms show ?thesis
    by (simp add: filter_results_by_similarity_def get_embedding_def)
next
  case (Some qe)
  from assms obtain filtered where
    f: "fst (filter_loop E qe th rs [] (calls @ [EmbedCall question])) = Inr filtered"
    and s: "sort_by_score_reverse filtered = Inr out"
    by (auto simp: fst_filter_results_by_similarity [OF Some] split: sum.splits)
  from sort_by_score_reverse_Inr [OF s] have m: "mset out = mset filtered" .
  then have "set out = set filtered" and "length out = length filtered"
    by (rule mset_eq_setD, rule mset_eq_length)
  with filter_loop_output [OF f] show ?thesis by auto
qed

subsection \<open>The example run\<close>

lemma example_cosine_eiffel:
  "cosine_similarity float64_arith [1, 0, 0, 0, 0] [1, 1, 1, 1, 0] = Inr (Finite (1 / 2))"
  by (simp add: cosine_similarity_def np_dot_def float64_arith_def ieee_def ieee_dot_def
      ieee_norm_def ieee_sqrt_def ieee_add_def ieee_mul_def ieee_div_def
      float64_round_0 float64_round_1 float64_round_2 float64_round_3 float64_round_4
      float64_round_half)

lemma example_cosine_cuisine:
  "cosine_similarity float64_arith [1, 0, 0, 0, 0] [0, 1, 0, 0, 0] = Inr (Finite 0)"
  by (simp add: cosine_similarity_def np_dot_def float64_arith_def ieee_def ieee_dot_def
      ieee_norm_def ieee_sqrt_def ieee_add_def ieee_mul_def ieee_div_def
      float64_round_0 float64_round_1)

lemma example_cosine_louvre:
  "cosine_similarity float64_arith [1, 0, 0, 0, 0] [3, 2, 1, 1, 1] = Inr (Finite (3 / 4))"
  by (simp add: cosine_similarity_def np_dot_def float64_arith_def ieee_def ieee_dot_def
      ieee_norm_def ieee_sqrt_def ieee_add_def ieee_mul_def ieee_div_def
      float64_round_0 float64_round_1 float64_round_3 float64_round_4 float64_round_9
      float64_round_13 float64_round_14 float64_round_15 float64_round_16
      float64_round_three_quarters)

lemma example_cosine_seine:
  "cosine_similarity float64_arith [1, 0, 0, 0, 0] [2, 2, 2, 2, 0] = Inr (Finite (1 / 2))"
  by (simp add: cosine_similarity_def np_dot_def float64_arith_def ieee_def ieee_dot_def
      ieee_norm_def ieee_sqrt_def ieee_add_def ieee_mul_def ieee_div_def
      float64_round_0 float64_round_1 float64_round_2 float64_round_4 float64_round_8
      float64_round_12 float64_round_16 float64_round_half)

lemma example_cosine_paris:
  "cosine_similarity float64_arith [1, 0, 0, 0, 0] [1, 0, 0, 0, 0] = Inr (Finite 1)"
  by (simp add: cosine_similarity_def np_dot_def float64_arith_def ieee_def ieee_dot_def
      ieee_norm_def ieee_sqrt_def ieee_add_def ieee_mul_def ieee_div_def
      float64_round_0 float64_round_1)

lemma example_search:
  "map search_result_of_item example_items = example_results"
  by (simp add: example_items_def example_results_def search_result_of_item_def
      example_result_def dict_get_def)

lemma example_filter_run:
  "fst (filter_results_by_similarity example_env example_question example_results
          (Finite float64_0_3) calls)
   = Inr example_curated"
  by (simp add: filter_results_by_similarity_def get_embedding_def example_env_def
      example_question_def example_results_def example_result_def example_embedding_def
      result_text_def example_cosine_eiffel example_cosine_cuisine example_cosine_louvre
      example_cosine_seine example_cosine_paris float_ge_def float_rank_def float_val_def
      float64_0_3_def sort_by_score_reverse_def has_score_def descending_key_def
      example_curated_def)

lemma example_curated_scored: "list_all has_score example_curated"
  by (simp add: example_curated_def example_result_def has_score_def)

lemma example_embedding_lengths:
  "\<forall>r\<in>set example_results. \<forall>re. embed_content example_env (result_text r) = Some re
       \<longrightarrow> length re = length [1, 0, 0, 0, 0 :: real]"
  by (simp add: example_env_def example_results_def example_result_def example_embedding_def
      result_text_def)

subsection \<open>Rounding at the threshold\<close>

text \<open>
  For the question vector \<open>[1, 3, 0]\<close> and the result vector \<open>[3, 0, 1]\<close> the cosine is
  three tenths over the reals. In float64 it is 0.29999999999999993, below the float
  0.3 of the source, and the filter drops the result.
\<close>

lemma float64_round_10: "float64_round 10 = Finite 10"
  using float64_round_nearest [of 3 "10" 5629499534213120] by (simp add: powr_minus)

lemma float64_round_sqrt_10:
  "float64_round (sqrt 10) = Finite (7120816245988179 / 2251799813685248)"
proof -
  have lo: "2 \<le> sqrt 10"
    by (rule real_le_rsqrt) simp
  have hi: "sqrt 10 < 4"
    by (rule real_less_lsqrt) simp_all
  have a: "7120816245988178.5 / 2 ^ 51 < sqrt 10"
    by (rule real_less_rsqrt) (simp add: power2_eq_square)
  have b: "sqrt 10 < 7120816245988179.5 / 2 ^ 51"
    by (rule real_less_lsqrt) (simp_all add: power2_eq_square)
  have a': "of_int 7120816245988179 - 1 / 2 < sqrt 10 / 2 powr of_int (1 - 52)"
    using a by (simp add: powr_minus field_simps)
  have b': "sqrt 10 / 2 powr of_int (1 - 52) < of_int 7120816245988179 + 1 / 2"
    using b by (simp add: powr_minus field_simps)
  have "float64_round (sqrt 10)
        = Finite (of_int 7120816245988179 * 2 powr of_int (1 - 52))"
    using lo hi by (intro float64_round_nearest a' b') (simp_all add: powr_minus)
  then show ?thesis by (simp add: powr_minus)
qed

lemma float64_round_norm_squared_10:
  "float64_round (50706024009129182178312207736041 / 5070602400912917605986812821504)
   = Finite (5629499534213121 / 562949953421312)"
  using float64_round_nearest
    [of 3 "50706024009129182178312207736041 / 5070602400912917605986812821504"
       5629499534213121]
  by (simp add: powr_minus)

lemma float64_round_quotient_10:
  "float64_round (562949953421312 / 1876499844737707)
   = Finite (2702159776422297 / 9007199254740992)"
  using float64_round_nearest
    [of "- 2" "562949953421312 / 1876499844737707" 5404319552844594]
  by (simp add: powr_minus)

lemma float64_cosine_boundary:
  "cosine_similarity float64_arith [1, 3, 0] [3, 0, 1]
   = Inr (Finite (2702159776422297 / 9007199254740992))"
proof -
  have d: "f_dot float64_arith [1, 3, 0] [3, 0, 1] = Finite 3"
    by (simp add: float64_arith_def ieee_def ieee_dot_def ieee_add_def ieee_mul_def
        float64_round_0 float64_round_3)
  have n1: "f_norm float64_arith [1, 3, 0] = Finite (7120816245988179 / 2251799813685248)"
    using float64_round_sqrt_10
    by (simp add: float64_arith_def ieee_def ieee_norm_def ieee_dot_def ieee_sqrt_def
        ieee_add_def ieee_mul_def float64_round_0 float64_round_1 float64_round_9
        float64_round_10)
  have n2: "f_norm float64_arith [3, 0, 1] = Finite (7120816245988179 / 2251799813685248)"
    using float64_round_sqrt_10
    by (simp add: float64_arith_def ieee_def ieee_norm_def ieee_dot_def ieee_sqrt_def
        ieee_add_def ieee_mul_def float64_round_0 float64_round_1 float64_round_9
        float64_round_10)
  have m: "f_mul float64_arith (Finite (7120816245988179 / 2251799813685248))
             (Finite (7120816245988179 / 2251799813685248))
           = Finite (5629499534213121 / 562949953421312)"
    using float64_round_norm_squared_10
    by (simp add: float64_arith_def ieee_def ieee_mul_def)
  have q: "f_div float64_arith (Finite 3) (Finite (5629499534213121 / 562949953421312))
           = Finite (2702159776422297 / 9007199254740992)"
    using float64_round_quotient_10
    by (simp add: float64_arith_def ieee_def ieee_div_def)
  show ?thesis
    by (simp add: cosine_similarity_def np_dot_def d n1 n2 m q)
qed

lemma exact_cosine_boundary:
  "cosine_similarity exact_arith [1, 3, 0] [3, 0, 1] = Inr (Finite (3 / 10))"
  by (simp add: cosine_similarity_def np_dot_def exact_dot exact_norm exact_mul exact_div)

lemma float64_filter_boundary:
  assumes "numpy E = float64_arith" and "embed_content E question = Some [1, 3, 0]"
    and "embed_content E (result_text r) = Some [3, 0, 1]"
  shows "fst (filter_results_by_similarity E question [r] (Finite float64_0_3) calls) = Inr []"
  using assms
  by (simp add: filter_results_by_similarity_def get_embedding_def float64_cosine_boundary
      float_ge_def float_rank_def float_val_def float64_0_3_def sort_by_score_reverse_def)

subsection \<open>Results\<close>

text \<open>
  Claim C10. On an empty list of results, whatever the question and whether its embedding
  succeeds or not, \<open>filter_results_by_similarity\<close> returns the empty list, and the only
  call it adds is the one embedding request for the question.
\<close>

theorem filter_empty_results:
  "filter_results_by_similarity E question [] threshold calls
   = (Inr [], calls @ [EmbedCall question])"
  by (simp add: filter_results_by_similarity_def get_embedding_def sort_by_score_reverse_def
      split: option.split)

text \<open>
  Claim C3. When the embedding of the question fails, \<open>filter_results_by_similarity\<close>
  returns the list of results it was given: the same elements, in the same order, with
  the fields they had (so without a score where they had none). It has made the one
  embedding request for the question.
\<close>

theorem filter_question_embedding_fails:
  assumes "embed_content E question = None"
  shows "filter_results_by_similarity E question search_results threshold calls
         = (Inr search_results, calls @ [EmbedCall question])"
  using assms by (simp add: filter_results_by_similarity_def get_embedding_def)

theorem filter_question_embedding_fails_witness:
  "embed_content example_env_no_embedding ''q'' = None
   \<and> filter_results_by_similarity example_env_no_embedding ''q''
       [\<lparr>title = ''b'', link = ''l2'', snippet = ''s2'', similarity_score = None\<rparr>,
        \<lparr>title = ''a'', link = ''l1'', snippet = ''s1'', similarity_score = None\<rparr>]
       (Finite float64_0_3) []
     = (Inr [\<lparr>title = ''b'', link = ''l2'', snippet = ''s2'', similarity_score = None\<rparr>,
             \<lparr>title = ''a'', link = ''l1'', snippet = ''s1'', similarity_score = None\<rparr>],
        [EmbedCall ''q''])"
proof -
  have h: "embed_content example_env_no_embedding ''q'' = None"
    by (simp add: example_env_no_embedding_def)
  from h filter_question_embedding_fails [OF h, of _ "Finite float64_0_3" "[]"]
  show ?thesis by simp
qed

text \<open>
  Claim C1, as the code has it. When the embedding of the question succeeds, and every
  result embedding that succeeds has the length of the question embedding, then, whatever
  the float arithmetic, \<open>filter_results_by_similarity\<close> returns a list \<open>out\<close> that
  \<^item> has exactly the elements, with multiplicity, of the input results whose own embedding
    succeeds and whose cosine similarity to the question embedding, as
    \<open>cosine_similarity\<close> computes it in that arithmetic, is at least the threshold in the
    comparison of floats, each with that similarity as its score (\<open>scored_if_relevant\<close>);
  \<^item> is in descending order of score;
  \<^item> keeps, among the elements of any one score, the order they had in the input.
\<close>

theorem filter_results_by_similarity_correct:
  assumes qe: "embed_content E question = Some qe"
    and len: "\<forall>r\<in>set results. \<forall>re. embed_content E (result_text r) = Some re
                \<longrightarrow> length re = length qe"
  shows "\<exists>out. fst (filter_results_by_similarity E question results threshold calls) = Inr out
      \<and> mset out = mset (List.map_filter (scored_if_relevant E qe threshold) results)
      \<and> sorted_wrt (\<lambda>a b. \<exists>x y. similarity_score a = Some x \<and> similarity_score b = Some y
                            \<and> float_ge x y) out
      \<and> (\<forall>k. filter (\<lambda>x. similarity_score x = Some k) out
             = filter (\<lambda>x. similarity_score x = Some k)
                 (List.map_filter (scored_if_relevant E qe threshold) results))"
proof -
  let ?kept = "List.map_filter (scored_if_relevant E qe threshold) results"
  let ?out = "sort_key (\<lambda>x. descending_key (the (similarity_score x))) ?kept"
  have kept: "\<forall>x\<in>set ?kept. \<exists>s. similarity_score x = Some s \<and> float_ge s threshold"
    using kept_all_scored [of _ E qe threshold results] by blast
  then have scored: "\<forall>x\<in>set ?kept. has_score x"
    by (auto simp: has_score_def)
  from kept have no_nan: "\<forall>x\<in>set ?kept. \<exists>s. similarity_score x = Some s \<and> s \<noteq> NaN"
    using float_ge_not_NaN by blast
  have "fst (filter_loop E qe threshold results [] (calls @ [EmbedCall question])) = Inr ?kept"
    using filter_loop_closed_form [OF len, of threshold "[]"] by simp
  then have "fst (filter_results_by_similarity E question results threshold calls) = Inr ?out"
    using sort_by_score_reverse_scored [OF scored]
    by (simp add: fst_filter_results_by_similarity [OF qe])
  moreover have "mset ?out = mset ?kept" by simp
  moreover note sort_key_descending [OF no_nan]
  moreover have "\<forall>k. filter (\<lambda>x. similarity_score x = Some k) ?out
             = filter (\<lambda>x. similarity_score x = Some k) ?kept"
    using sort_key_keeps_order_of_equal_scores [OF scored] by simp
  ultimately show ?thesis by blast
qed

theorem filter_results_by_similarity_correct_witness:
  "embed_content example_env example_question = Some [1, 0, 0, 0, 0]
   \<and> list_all (\<lambda>r. case embed_content example_env (result_text r) of
                      None \<Rightarrow> True
                    | Some re \<Rightarrow> length re = length [1, 0, 0, 0, 0 :: real])
        example_results
   \<and> (\<exists>out. fst (filter_results_by_similarity example_env example_question example_results
                   (Finite float64_0_3) []) = Inr out
          \<and> mset out = mset (List.map_filter
                              (scored_if_relevant example_env [1, 0, 0, 0, 0]
                                 (Finite float64_0_3))
                              example_results)
          \<and> sorted_wrt (\<lambda>a b. \<exists>x y. similarity_score a = Some x \<and> similarity_score b = Some y
                                \<and> float_ge x y) out
          \<and> (\<forall>k. filter (\<lambda>x. similarity_score x = Some k) out
                 = filter (\<lambda>x. similarity_score x = Some k)
                     (List.map_filter
                        (scored_if_relevant example_env [1, 0, 0, 0, 0] (Finite float64_0_3))
                        example_results)))
   \<and> fst (filter_results_by_similarity example_env example_question example_results
            (Finite float64_0_3) [])
     = Inr example_curated"
proof -
  have h1: "embed_content example_env example_question = Some [1, 0, 0, 0, 0]"
    by (simp add: example_env_def example_question_def example_embedding_def)
  note h2 = example_embedding_lengths
  have h2': "list_all (\<lambda>r. case embed_content example_env (result_text r) of
                      None \<Rightarrow> True
                    | Some re \<Rightarrow> length re = length [1, 0, 0, 0, 0 :: real])
        example_results"
    using h2 by (auto simp: list_all_iff split: option.split)
  from h1 h2' filter_results_by_similarity_correct [OF h1 h2, of "Finite float64_0_3" "[]"]
    example_filter_run [of "[]"]
  show ?thesis by blast
qed

text \<open>
  The claim as the specification states it, for every input sequence, fails: when the
  embedding of a result has another length than the embedding of the question, \<open>np.dot\<close>
  raises and the filter returns no list. Here the question embeds to two entries and
  the first result to one.
\<close>

theorem filter_dimension_mismatch_counterexample:
  "embed_content example_env_dimensions example_question = Some [1, 0]
   \<and> fst (filter_results_by_similarity example_env_dimensions example_question example_results
            (Finite float64_0_3) [])
     = Inl (ValueError 2 1)"
  by (simp add: filter_results_by_similarity_def get_embedding_def example_env_dimensions_def
      example_env_def example_question_def example_results_def example_result_def
      result_text_def cosine_similarity_def np_dot_def)

text \<open>
  Claim C5. When the embedding of the question succeeds and the embedding of one result
  \<open>r\<close> fails, the outcome of \<open>filter_results_by_similarity\<close> on a list that contains \<open>r\<close>
  is the outcome on the list without \<open>r\<close>: the other results are scored, thresholded and
  ranked as if \<open>r\<close> had not been there, and \<open>r\<close>, with or without a score, is not in the
  output.
\<close>

theorem failed_result_embedding_is_dropped:
  assumes qe: "embed_content E question = Some qe"
    and r: "embed_content E (result_text r) = None"
  shows "fst (filter_results_by_similarity E question (xs @ r # ys) threshold calls)
         = fst (filter_results_by_similarity E question (xs @ ys) threshold calls)
       \<and> (\<forall>out. fst (filter_results_by_similarity E question (xs @ r # ys) threshold calls)
                  = Inr out
              \<longrightarrow> (\<forall>s. r\<lparr>similarity_score := s\<rparr> \<notin> set out))"
proof
  show "fst (filter_results_by_similarity E question (xs @ r # ys) threshold calls)
         = fst (filter_results_by_similarity E question (xs @ ys) threshold calls)"
    using filter_loop_skips_failed_embedding [OF r, of qe threshold xs ys "[]"
        "calls @ [EmbedCall question]" "calls @ [EmbedCall question]"]
    by (simp only: fst_filter_results_by_similarity [OF qe])
next
  show "\<forall>out. fst (filter_results_by_similarity E question (xs @ r # ys) threshold calls) = Inr out
              \<longrightarrow> (\<forall>s. r\<lparr>similarity_score := s\<rparr> \<notin> set out)"
  proof (intro allI impI notI)
    fix out s
    assume out: "fst (filter_results_by_similarity E question (xs @ r # ys) threshold calls) = Inr out"
      and mem: "r\<lparr>similarity_score := s\<rparr> \<in> set out"
    from out obtain filtered where
      f: "fst (filter_loop E qe threshold (xs @ r # ys) [] (calls @ [EmbedCall question])) = Inr filtered"
      and s: "sort_by_score_reverse filtered = Inr out"
      by (auto simp: fst_filter_results_by_similarity [OF qe] split: sum.splits)
    from sort_by_score_reverse_Inr [OF s] have "set out = set filtered"
      by (rule mset_eq_setD)
    with mem filter_loop_output [OF f]
    have "embed_content E (result_text (r\<lparr>similarity_score := s\<rparr>)) \<noteq> None"
      by auto
    with r show False by simp
  qed
qed

theorem failed_result_embedding_is_dropped_witness:
  "embed_content example_env example_question = Some [1, 0, 0, 0, 0]
   \<and> embed_content example_env (result_text (example_result ''Broken'' ''http://b'' ''page'' None))
     = None
   \<and> fst (filter_results_by_similarity example_env example_question
            ([example_result ''Eiffel'' ''http://e'' ''tower'' None,
              example_result ''Cuisine'' ''http://c'' ''recipes'' None]
             @ example_result ''Broken'' ''http://b'' ''page'' None
             # [example_result ''Louvre'' ''http://l'' ''museum'' None,
                example_result ''Seine'' ''http://s'' ''river'' None,
                example_result ''Paris'' ''http://p'' ''capital'' None]) (Finite float64_0_3) [])
     = fst (filter_results_by_similarity example_env example_question
            ([example_result ''Eiffel'' ''http://e'' ''tower'' None,
              example_result ''Cuisine'' ''http://c'' ''recipes'' None]
             @ [example_result ''Louvre'' ''http://l'' ''museum'' None,
                example_result ''Seine'' ''http://s'' ''river'' None,
                example_result ''Paris'' ''http://p'' ''capital'' None]) (Finite float64_0_3) [])
   \<and> (\<forall>s. (example_result ''Broken'' ''http://b'' ''page'' None)\<lparr>similarity_score := s\<rparr>
            \<notin> set example_curated)"
proof -
  let ?r = "example_result ''Broken'' ''http://b'' ''page'' None"
  let ?xs = "[example_result ''Eiffel'' ''http://e'' ''tower'' None,
              example_result ''Cuisine'' ''http://c'' ''recipes'' None]"
  let ?ys = "[example_result ''Louvre'' ''http://l'' ''museum'' None,
                example_result ''Seine'' ''http://s'' ''river'' None,
                example_result ''Paris'' ''http://p'' ''capital'' None]"
  have h1: "embed_content example_env example_question = Some [1, 0, 0, 0, 0]"
    by (simp add: example_env_def example_question_def example_embedding_def)
  have h2: "embed_content example_env (result_text ?r) = None"
    by (simp add: example_env_def example_result_def example_embedding_def result_text_def)
  have run: "fst (filter_results_by_similarity example_env example_question (?xs @ ?r # ?ys)
                    (Finite float64_0_3) []) = Inr example_curated"
    using example_filter_run [of "[]"] by (simp add: example_results_def)
  from h1 h2 run
    failed_result_embedding_is_dropped [OF h1 h2, of ?xs ?ys "Finite float64_0_3" "[]"]
  show ?thesis by blast
qed

section \<open>The answer composer\<close>

lemma build_context_closed_form:
  assumes "list_all has_score rs"
  shows "build_context idx rs ctx
         = Inr (ctx @ concat (map (\<lambda>(i, r). context_entry i r) (enumerate idx rs)))"
  using assms
proof (induction rs arbitrary: idx ctx)
  case Nil
  show ?case by simp
next
  case (Cons r rs)
  from Cons.prems have "has_score r" and rest: "list_all has_score rs"
    by simp_all
  then obtain s where s: "similarity_score r = Some s"
    by (auto simp: has_score_def)
  show ?case
    by (simp add: s Cons.IH [OF rest] context_entry_def)
qed

lemma build_context_Inr_scored:
  assumes "build_context idx rs ctx = Inr c"
  shows "list_all has_score rs"
  using assms
  by (induction rs arbitrary: idx ctx) (auto simp: has_score_def split: option.splits)

lemma ask_gemini_Inr_scored:
  assumes "ask_gemini_with_context E question curated calls = (Inr answer, calls')"
  shows "list_all has_score curated"
  using assms build_context_Inr_scored
  by (auto simp: ask_gemini_with_context_def build_prompt_def split: sum.splits)

text \<open>
  Claim C6, as the code has it. For curated results that all carry a score, the prompt is
  the header, then for each result in order an entry with its 1-based index, title, link,
  snippet and score to two decimals (\<open>context_entry\<close>), then the request to answer, the
  question, and one fixed citation instruction. That instruction names the markers
  \<open>[1], [2]\<close> as the format to cite in, whatever the number of results; the entries are
  numbered \<open>1.\<close>, \<open>2.\<close>, ... and carry no bracketed marker. This prompt is the one sent to
  the generation service.
\<close>

theorem prompt_layout:
  assumes "list_all has_score curated_results"
  shows "build_prompt question curated_results
         = Inr (context_header
                @ concat (map (\<lambda>(i, r). context_entry i r) (enumerate 1 curated_results))
                @ ''\<newline>\<newline>'' @ answer_request @ ''\<newline>\<newline>''
                @ question_label @ question @ ''\<newline>\<newline>'' @ citation_instruction)
       \<and> ask_gemini_with_context E question curated_results calls
         = (generate_content E
              (context_header
               @ concat (map (\<lambda>(i, r). context_entry i r) (enumerate 1 curated_results))
               @ ''\<newline>\<newline>'' @ answer_request @ ''\<newline>\<newline>''
               @ question_label @ question @ ''\<newline>\<newline>'' @ citation_instruction),
            calls @ [GenerateCall
              (context_header
               @ concat (map (\<lambda>(i, r). context_entry i r) (enumerate 1 curated_results))
               @ ''\<newline>\<newline>'' @ answer_request @ ''\<newline>\<newline>''
               @ question_label @ question @ ''\<newline>\<newline>'' @ citation_instruction)])
       \<and> sublist ''[1], [2]'' citation_instruction"
proof -
  have p: "build_prompt question curated_results
         = Inr (context_header
                @ concat (map (\<lambda>(i, r). context_entry i r) (enumerate 1 curated_results))
                @ ''\<newline>\<newline>'' @ answer_request @ ''\<newline>\<newline>''
                @ question_label @ question @ ''\<newline>\<newline>'' @ citation_instruction)"
    by (simp add: build_prompt_def build_context_closed_form [OF assms] make_prompt_def)
  have "citation_instruction
        = take 28 citation_instruction @ ''[1], [2]'' @ drop 36 citation_instruction"
    by (simp add: citation_instruction_def)
  then have "sublist ''[1], [2]'' citation_instruction"
    unfolding sublist_def by blast
  with p show ?thesis
    by (simp add: ask_gemini_with_context_def)
qed

theorem prompt_layout_witness:
  "list_all has_score example_curated
   \<and> build_prompt example_question example_curated
     = Inr (context_header
            @ concat (map (\<lambda>(i, r). context_entry i r) (enumerate 1 example_curated))
            @ ''\<newline>\<newline>'' @ answer_request @ ''\<newline>\<newline>''
            @ question_label @ example_question @ ''\<newline>\<newline>'' @ citation_instruction)
   \<and> sublist ''[1], [2]'' citation_instruction"
proof -
  note h = example_curated_scored
  from h prompt_layout [OF h, of example_question example_env "[]"] show ?thesis by blast
qed

text \<open>
  The claim as the specification states it, that the prompt for N results contains the
  markers \<open>[1]\<close> to \<open>[N]\<close>, fails: the prompt for the four curated results of the example
  does not contain \<open>[4]\<close>.
\<close>

theorem prompt_markers_counterexample:
  "list_all has_score example_curated \<and> length example_curated = 4
   \<and> \<not> prompt_has_marker 4 example_question example_curated"
  by (simp add: prompt_has_marker_def build_prompt_def example_curated_def example_result_def
      has_score_def make_prompt_def context_header_def source_label_def content_label_def
      relevance_label_def answer_request_def question_label_def citation_instruction_def
      citation_marker_def str_nat.simps digit_def format_2f_def round_half_even_def
      example_question_def sublist_code)

section \<open>The endpoint\<close>

text \<open>
  Claim C9. When the question of the request is empty (the key is absent from the body,
  or its value is the empty string), \<open>ask\<close> answers with status 400 and a body that holds
  an error message only, and makes no outbound call: the list of calls is unchanged.
\<close>

theorem ask_empty_question:
  assumes "data ''question'' = None \<or> data ''question'' = Some []"
  shows "ask E data calls = ((ErrorBody msg_question_required, 400), calls)"
  using assms by (auto simp: ask_def dict_get_def)

theorem ask_empty_question_witness:
  "(Map.empty ''question'' = None \<or> Map.empty ''question'' = Some [])
   \<and> ([''question'' \<mapsto> []] ''question'' = None \<or> [''question'' \<mapsto> []] ''question'' = Some [])
   \<and> ask example_env Map.empty [] = ((ErrorBody msg_question_required, 400), [])
   \<and> ask example_env [''question'' \<mapsto> []] [] = ((ErrorBody msg_question_required, 400), [])"
proof -
  have h1: "Map.empty ''question'' = None \<or> (Map.empty :: json_object) ''question'' = Some []"
    by simp
  have h2: "[''question'' \<mapsto> []] ''question'' = None
            \<or> ([''question'' \<mapsto> []] :: json_object) ''question'' = Some []"
    by simp
  from h1 h2
    ask_empty_question [where data = Map.empty and E = example_env and calls = "[]"]
    ask_empty_question
      [where data = "[''question'' \<mapsto> []]" and E = example_env and calls = "[]"]
  show ?thesis by simp
qed

text \<open>
  Claim C8. When the question is not empty and the search API key or the search engine ID
  is empty (the environment variable is absent), \<open>ask\<close> answers with status 200 and a body
  with a non-empty error message, a non-empty explanatory answer and an empty list of
  sources, and makes no outbound call: the list of calls is unchanged.
\<close>

theorem ask_missing_credentials:
  assumes "data ''question'' = Some question" and "question \<noteq> []"
    and "GOOGLE_SEARCH_API_KEY E = [] \<or> GOOGLE_SEARCH_ENGINE_ID E = []"
  shows "ask E data calls
         = ((CredentialsBody msg_credentials_required msg_credentials_answer [], 200), calls)
         \<and> msg_credentials_required \<noteq> [] \<and> msg_credentials_answer \<noteq> []"
  using assms
  by (auto simp: ask_def dict_get_def msg_credentials_required_def msg_credentials_answer_def)

theorem ask_missing_credentials_witness:
  "[''question'' \<mapsto> ''q''] ''question'' = Some ''q'' \<and> ''q'' \<noteq> []
   \<and> (GOOGLE_SEARCH_API_KEY (example_env\<lparr>GOOGLE_SEARCH_ENGINE_ID := []\<rparr>) = []
       \<or> GOOGLE_SEARCH_ENGINE_ID (example_env\<lparr>GOOGLE_SEARCH_ENGINE_ID := []\<rparr>) = [])
   \<and> ask (example_env\<lparr>GOOGLE_SEARCH_ENGINE_ID := []\<rparr>) [''question'' \<mapsto> ''q''] []
      = ((CredentialsBody msg_credentials_required msg_credentials_answer [], 200), [])"
proof -
  let ?E = "example_env\<lparr>GOOGLE_SEARCH_ENGINE_ID := []\<rparr>"
  have h1: "([''question'' \<mapsto> ''q''] :: json_object) ''question'' = Some ''q''" by simp
  have h2: "''q'' \<noteq> []" by simp
  have h3: "GOOGLE_SEARCH_API_KEY ?E = [] \<or> GOOGLE_SEARCH_ENGINE_ID ?E = []" by simp
  from h1 h2 h3
    ask_missing_credentials
      [where data = "[''question'' \<mapsto> ''q'']" and question = "''q''" and E = ?E and calls = "[]"]
  show ?thesis by simp
qed

lemma google_search_unscored:
  assumes "google_search E q k c n calls = (Inr rs, calls')"
  shows "\<forall>x\<in>set rs. similarity_score x = None"
  using assms
  by (auto simp: google_search_def Let_def search_result_of_item_def
      split: sum.splits option.splits)

lemma example_ask_run:
  "fst (ask example_env [''question'' \<mapsto> example_question] [])
   = (AnswerPayload ''Paris [1]'' example_curated 6 4, 200)"
proof -
  have q: "dict_get [''question'' \<mapsto> example_question] ''question'' [] = example_question"
    by (simp add: dict_get_def)
  have ne: "example_question \<noteq> []" by (simp add: example_question_def)
  have g: "google_search example_env example_question ''key'' ''cx'' 10 []
           = (Inr example_results, [SearchCall example_question ''key'' ''cx'' 10])"
    by (simp add: google_search_def example_env_def example_search)
  obtain calls2 where f: "filter_results_by_similarity example_env example_question
        example_results (Finite float64_0_3) [SearchCall example_question ''key'' ''cx'' 10]
      = (Inr example_curated, calls2)"
    using example_filter_run [of "[SearchCall example_question ''key'' ''cx'' 10]"]
    by (cases "filter_results_by_similarity example_env example_question
        example_results (Finite float64_0_3) [SearchCall example_question ''key'' ''cx'' 10]")
      simp
  obtain calls3 where a: "ask_gemini_with_context example_env example_question example_curated
        calls2 = (Inr ''Paris [1]'', calls3)"
    by (simp add: ask_gemini_with_context_def build_prompt_def
        build_context_closed_form [OF example_curated_scored] example_env_def)
  have keys: "GOOGLE_SEARCH_API_KEY example_env = ''key''"
    "GOOGLE_SEARCH_ENGINE_ID example_env = ''cx''"
    by (simp_all add: example_env_def)
  have len: "length example_results = 6" "length example_curated = 4"
    by (simp_all add: example_results_def example_curated_def)
  show ?thesis
    using ne by (simp add: ask_def q keys g f a len)
qed

text \<open>
  Claim C2. Whenever \<open>ask\<close> answers with status 200 and an answer payload, the payload's
  \<open>filtered_count\<close> is the number of its sources, that number is at most \<open>total_found\<close>,
  and every source carries a score that is at least the threshold in the comparison of
  floats. The threshold is the float \<open>0.3\<close> of the source.
\<close>

theorem answer_payload_invariant:
  assumes "ask E data calls
           = ((AnswerPayload answer sources total_found filtered_count, 200), calls')"
  shows "filtered_count = length sources \<and> length sources \<le> total_found
         \<and> (\<forall>x\<in>set sources. \<exists>s. similarity_score x = Some s
                \<and> float_ge s (Finite float64_0_3))"
proof -
  let ?q = "dict_get data ''question'' []"
  from assms obtain search_results calls1 calls2 where
    g: "google_search E ?q (GOOGLE_SEARCH_API_KEY E) (GOOGLE_SEARCH_ENGINE_ID E) 10 calls
        = (Inr search_results, calls1)"
    and f: "filter_results_by_similarity E ?q search_results (Finite float64_0_3) calls1
            = (Inr sources, calls2)"
    and a: "ask_gemini_with_context E ?q sources calls2 = (Inr answer, calls')"
    and t: "total_found = length search_results" and c: "filtered_count = length sources"
    by (auto simp: ask_def Let_def split: if_splits prod.splits sum.splits)
  from f have "fst (filter_results_by_similarity E ?q search_results (Finite float64_0_3) calls1)
               = Inr sources"
    by simp
  from filter_results_output [OF this]
  have len: "length sources \<le> length search_results"
    and alt: "sources = search_results
              \<or> (\<forall>x\<in>set sources. \<exists>s. similarity_score x = Some s
                     \<and> float_ge s (Finite float64_0_3))"
    by auto
  have "\<forall>x\<in>set sources. \<exists>s. similarity_score x = Some s \<and> float_ge s (Finite float64_0_3)"
  proof (rule disjE [OF alt])
    assume "sources = search_results"
    with google_search_unscored [OF g] ask_gemini_Inr_scored [OF a]
    have "sources = []"
      by (cases sources) (auto simp: has_score_def)
    then show ?thesis by simp
  qed
  with len t c show ?thesis by simp
qed

theorem answer_payload_invariant_witness:
  "ask example_env [''question'' \<mapsto> example_question] []
     = ((AnswerPayload ''Paris [1]'' example_curated 6 4, 200),
        snd (ask example_env [''question'' \<mapsto> example_question] []))
   \<and> 4 = length example_curated \<and> length example_curated \<le> 6
   \<and> list_all (\<lambda>x. \<exists>s. similarity_score x = Some s \<and> float_ge s (Finite float64_0_3))
        example_curated"
proof -
  have h: "ask example_env [''question'' \<mapsto> example_question] []
     = ((AnswerPayload ''Paris [1]'' example_curated 6 4, 200),
        snd (ask example_env [''question'' \<mapsto> example_question] []))"
    using example_ask_run by (simp add: prod_eq_iff)
  from h answer_payload_invariant [OF h] show ?thesis
    by (simp only: list_all_iff) blast
qed

text \<open>
  Claim C4. When the question is not empty, both credentials are present, the search
  returns at least one item and the embedding of the question fails, \<open>ask\<close> answers with
  status 500 and an error body: the filter hands the unscored results on, the composer
  reads the score of the first of them, and the missing key raises. The calls made are the
  search and the one embedding request; the generation service is not called.
\<close>

theorem ask_fails_when_question_embedding_fails:
  assumes "data ''question'' = Some question" and "question \<noteq> []"
    and "GOOGLE_SEARCH_API_KEY E \<noteq> []" and "GOOGLE_SEARCH_ENGINE_ID E \<noteq> []"
    and "cse_list_execute E question (GOOGLE_SEARCH_API_KEY E) (GOOGLE_SEARCH_ENGINE_ID E) 10
         = Inr (Some items)"
    and "items \<noteq> []"
    and "embed_content E question = None"
  shows "ask E data calls
         = ((ErrorBody ([CHR 0x27] @ ''similarity_score'' @ [CHR 0x27]), 500),
            calls @ [SearchCall question (GOOGLE_SEARCH_API_KEY E) (GOOGLE_SEARCH_ENGINE_ID E) 10,
                     EmbedCall question])"
proof -
  from assms(6) obtain i rest where items: "items = i # rest" by (cases items) auto
  have q: "dict_get data ''question'' [] = question"
    using assms(1) by (simp add: dict_get_def)
  have g: "google_search E question (GOOGLE_SEARCH_API_KEY E) (GOOGLE_SEARCH_ENGINE_ID E) 10 calls
           = (Inr (search_result_of_item i # map search_result_of_item rest),
              calls @ [SearchCall question (GOOGLE_SEARCH_API_KEY E) (GOOGLE_SEARCH_ENGINE_ID E) 10])"
    using assms(5) items by (simp add: google_search_def)
  have b: "build_prompt question (search_result_of_item i # map search_result_of_item rest)
           = Inl (KeyError ''similarity_score'')"
    by (simp add: build_prompt_def search_result_of_item_def)
  show ?thesis
    using assms(2,3,4)
    by (simp add: ask_def q g filter_results_by_similarity_def get_embedding_def assms(7) b
        ask_gemini_with_context_def str_error_def)
qed

theorem ask_fails_when_question_embedding_fails_witness:
  "[''question'' \<mapsto> example_question] ''question'' = Some example_question
   \<and> example_question \<noteq> []
   \<and> GOOGLE_SEARCH_API_KEY example_env_no_embedding \<noteq> []
   \<and> GOOGLE_SEARCH_ENGINE_ID example_env_no_embedding \<noteq> []
   \<and> cse_list_execute example_env_no_embedding example_question
        (GOOGLE_SEARCH_API_KEY example_env_no_embedding)
        (GOOGLE_SEARCH_ENGINE_ID example_env_no_embedding) 10 = Inr (Some example_items)
   \<and> example_items \<noteq> []
   \<and> embed_content example_env_no_embedding example_question = None
   \<and> ask example_env_no_embedding [''question'' \<mapsto> example_question] []
     = ((ErrorBody ([CHR 0x27] @ ''similarity_score'' @ [CHR 0x27]), 500),
        [SearchCall example_question ''key'' ''cx'' 10, EmbedCall example_question])"
proof -
  let ?E = example_env_no_embedding
  have h1: "([''question'' \<mapsto> example_question] :: json_object) ''question''
            = Some example_question" by simp
  have h2: "example_question \<noteq> []" by (simp add: example_question_def)
  have h3: "GOOGLE_SEARCH_API_KEY ?E \<noteq> []"
    by (simp add: example_env_no_embedding_def example_env_def)
  have h4: "GOOGLE_SEARCH_ENGINE_ID ?E \<noteq> []"
    by (simp add: example_env_no_embedding_def example_env_def)
  have h5: "cse_list_execute ?E example_question (GOOGLE_SEARCH_API_KEY ?E)
              (GOOGLE_SEARCH_ENGINE_ID ?E) 10 = Inr (Some example_items)"
    by (simp add: example_env_no_embedding_def example_env_def)
  have h6: "example_items \<noteq> []" by (simp add: example_items_def)
  have h7: "embed_content ?E example_question = None"
    by (simp add: example_env_no_embedding_def)
  have keys: "GOOGLE_SEARCH_API_KEY ?E = ''key''" "GOOGLE_SEARCH_ENGINE_ID ?E = ''cx''"
    by (simp_all add: example_env_no_embedding_def example_env_def)
  from h1 h2 h3 h4 h5 h6 h7
    ask_fails_when_question_embedding_fails
      [where data = "[''question'' \<mapsto> example_question]" and E = ?E and calls = "[]",
       OF h1 h2 h3 h4 h5 h6 h7]
  show ?thesis by (simp add: keys)
qed

end
